theory Spec2Isabelle
  imports Main "HOL-Library.Word"
begin

unbundle bit_operations_syntax

section \<open>The Essence file system driver (grub-core/fs/esfs.c)\<close>

text \<open>
  The driver overlays packed structs on raw bytes and walks them with pointer arithmetic,
  and an attribute may start at any offset of the 1024-byte directory entry (also inside
  its header). The model is therefore byte-level: a piece of memory is a function from a
  byte offset (counted from the pointer the code holds) to the byte stored there. The
  bytes of a directory entry are the offsets below 1024; what the function gives at
  larger offsets is whatever follows the entry in memory.

  The host is taken to be little-endian (the \<open>grub_le_to_cpu\<close> and \<open>grub_cpu_to_le\<close> macros
  are the identity) with a 64-bit \<open>grub_size_t\<close>, as on x86-64.
\<close>

subsection \<open>Bytes and little-endian fields\<close>

type_synonym byte = "8 word"
type_synonym mem = "nat \<Rightarrow> byte"

definition le16 :: "mem \<Rightarrow> nat \<Rightarrow> 16 word" where
  "le16 m a = ucast (m a) OR push_bit 8 (ucast (m (a + 1)))"

definition le32 :: "mem \<Rightarrow> nat \<Rightarrow> 32 word" where
  "le32 m a = ucast (m a) OR push_bit 8 (ucast (m (a + 1)))
     OR push_bit 16 (ucast (m (a + 2))) OR push_bit 24 (ucast (m (a + 3)))"

definition le64 :: "mem \<Rightarrow> nat \<Rightarrow> 64 word" where
  "le64 m a = ucast (m a) OR push_bit 8 (ucast (m (a + 1)))
     OR push_bit 16 (ucast (m (a + 2))) OR push_bit 24 (ucast (m (a + 3)))
     OR push_bit 32 (ucast (m (a + 4))) OR push_bit 40 (ucast (m (a + 5)))
     OR push_bit 48 (ucast (m (a + 6))) OR push_bit 56 (ucast (m (a + 7)))"

text \<open>The constants of the source.\<close>

definition ESFS_SIGNATURE_STRING :: "byte list" where
  "ESFS_SIGNATURE_STRING = map of_char ''!EssenceFS2-----''"

definition ESFS_DIRECTORY_ENTRY_SIGNATURE :: "byte list" where
  "ESFS_DIRECTORY_ENTRY_SIGNATURE = map of_char ''DirEntry''"

definition ESFS_DRIVER_VERSION :: "16 word" where "ESFS_DRIVER_VERSION = 10"
definition ESFS_ATTRIBUTE_DATA :: "16 word" where "ESFS_ATTRIBUTE_DATA = 1"
definition ESFS_ATTRIBUTE_FILENAME :: "16 word" where "ESFS_ATTRIBUTE_FILENAME = 2"
definition ESFS_INDIRECTION_DIRECT :: byte where "ESFS_INDIRECTION_DIRECT = 1"
definition ESFS_INDIRECTION_L1 :: byte where "ESFS_INDIRECTION_L1 = 2"

text \<open>Field offsets of \<open>struct grub_esfs_direntry\<close> (1024 bytes) and of the attribute
  structs, as the comments of the source give them.\<close>

definition de_attributeOffset :: "mem \<Rightarrow> 16 word" where "de_attributeOffset de = le16 de 28"
definition de_nodeType :: "mem \<Rightarrow> byte" where "de_nodeType de = de 30"
definition de_fileSize :: "mem \<Rightarrow> 64 word" where "de_fileSize de = le64 de 56"

definition attr_type :: "mem \<Rightarrow> nat \<Rightarrow> 16 word" where "attr_type de a = le16 de a"
definition attr_size :: "mem \<Rightarrow> nat \<Rightarrow> 16 word" where "attr_size de a = le16 de (a + 2)"
definition attr_indirection :: "mem \<Rightarrow> nat \<Rightarrow> byte" where "attr_indirection de a = de (a + 4)"
definition attr_dataOffset :: "mem \<Rightarrow> nat \<Rightarrow> byte" where "attr_dataOffset de a = de (a + 5)"
definition attr_count :: "mem \<Rightarrow> nat \<Rightarrow> 16 word" where "attr_count de a = le16 de (a + 6)"
definition attr_length :: "mem \<Rightarrow> nat \<Rightarrow> 16 word" where "attr_length de a = le16 de (a + 4)"

subsection \<open>get_direntry_attribute\<close>

text \<open>
  The loop of \<open>get_direntry_attribute\<close>, on the 32-bit cursor \<open>off\<close>. The attribute pointer
  is \<open>(grub_uint64_t *) direntry + off / 8\<close>, that is byte offset \<open>8 * (off div 8)\<close> of
  the entry; the model returns that offset, and \<open>None\<close> for \<open>NULL\<close>.
\<close>

function get_attr_loop :: "mem \<Rightarrow> 16 word \<Rightarrow> 64 word \<Rightarrow> 32 word \<Rightarrow> nat option" where
  "get_attr_loop de attrid minsize off =
     (if off \<le> 1024 - 4 then
        (if off AND 7 \<noteq> 0 then None
         else
           let attr = 8 * (unat off div 8)
           in if attr_size de attr < 4 \<or> ucast (attr_size de attr) + off > 1024 then None
              else if attr_type de attr = attrid \<and> ucast (attr_size de attr) \<ge> minsize
                then Some attr
              else get_attr_loop de attrid minsize (off + ucast (attr_size de attr)))
      else None)"
  by pat_completeness auto
termination
proof (relation "measure (\<lambda>(de, attrid, minsize, off). 1025 - unat off)", goal_cases)
  case 1
  show ?case by simp
next
  case (2 de attrid minsize off attr)
  define asize where "asize = attr_size de attr"
  have o: "unat off \<le> 1020" using 2(1) by (simp add: word_le_nat_alt)
  have s: "unat asize < 2 ^ 16" using unsigned_less [of asize, where 'a = nat] by simp
  then have "unat asize < 2 ^ 32" by simp
  then have u: "unat (ucast asize :: 32 word) = unat asize"
    by (simp add: unsigned_ucast_eq take_bit_nat_eq_self)
  have "unat off + unat (ucast asize :: 32 word) < 2 ^ 32" using o s u by simp
  then have e: "unat (off + ucast asize) = unat off + unat asize"
    using u by (simp add: unat_add_lem [THEN iffD1])
  have c: "4 \<le> unat asize" using 2(4) by (simp add: asize_def word_less_nat_alt not_less)
  show ?case using e c o by (simp add: asize_def)
qed

declare get_attr_loop.simps [simp del]

definition get_direntry_attribute :: "mem \<Rightarrow> 16 word \<Rightarrow> 64 word \<Rightarrow> nat option" where
  "get_direntry_attribute de attrid minsize =
     get_attr_loop de attrid minsize (ucast (de_attributeOffset de))"

subsection \<open>esfs_check_direntry\<close>

text \<open>\<open>grub_memcmp\<close> is used only through \<open>!= 0\<close>: the bytes at the pointer differ from
  the given ones.\<close>

definition memcmp_differs :: "mem \<Rightarrow> nat \<Rightarrow> byte list \<Rightarrow> bool" where
  "memcmp_differs m a bs = (map (\<lambda>i. m (a + i)) [0..<length bs] \<noteq> bs)"

definition esfs_check_direntry :: "mem \<Rightarrow> int" where
  "esfs_check_direntry entry =
     (if memcmp_differs entry 0 ESFS_DIRECTORY_ENTRY_SIGNATURE then 0 else 1)"

subsection \<open>The environment: error state, block device, allocator\<close>

datatype grub_err_t =
    GRUB_ERR_NONE
  | GRUB_ERR_OUT_OF_MEMORY
  | GRUB_ERR_BAD_FILE_TYPE
  | GRUB_ERR_OUT_OF_RANGE
  | GRUB_ERR_READ_ERROR
  | GRUB_ERR_BAD_FS

text \<open>One call of \<open>grub_disk_read\<close>: where and how much it read, the hook that was
  installed on the disk when it was made, and how the device answered.\<close>

record disk_access =
  acc_sector :: "64 word"
  acc_offset :: "64 word"
  acc_size :: "64 word"
  acc_hook :: "nat option"
  acc_status :: grub_err_t

text \<open>
  The state the driver works on: \<open>grub_errno\<close> with its message, the two hook fields of
  the disk (\<open>None\<close> is the null pointer), the device behind the disk (its bytes and the
  error, if any, with which a read of a given sector, offset and size fails), the allocator
  (the \<open>n\<close>-th allocation of the run fails, or returns a block with the given
  uninitialised contents), and the log of the calls of \<open>grub_disk_read\<close>.
\<close>

record world =
  grub_errno :: grub_err_t
  grub_errmsg :: string
  read_hook :: "nat option"
  read_hook_data :: "nat option"
  dev_bytes :: mem
  dev_status :: "64 word \<Rightarrow> 64 word \<Rightarrow> 64 word \<Rightarrow> grub_err_t"
  heap_fresh :: "nat \<Rightarrow> mem option"
  heap_count :: nat
  accesses :: "disk_access list"

definition grub_error :: "grub_err_t \<Rightarrow> string \<Rightarrow> world \<Rightarrow> world" where
  "grub_error n msg w = w\<lparr>grub_errno := n, grub_errmsg := msg\<rparr>"

text \<open>
  Modelled from the spec: \<open>grub_disk_read\<close> (grub-core/kern/disk.c is not among the
  sources). The block device interface of the specification: a read of \<open>sz\<close> bytes at
  512-byte sector \<open>sector\<close> plus \<open>offset\<close> either fails with an error, which is left
  in \<open>grub_errno\<close> and returned, or fills the buffer from the device and notifies the
  hook installed on the disk once. Every call is logged.
\<close>

definition grub_disk_read ::
  "64 word \<Rightarrow> 64 word \<Rightarrow> 64 word \<Rightarrow> mem \<Rightarrow> world \<Rightarrow> grub_err_t \<times> mem \<times> world" where
  "grub_disk_read sector offset sz buf w =
     (let call = \<lparr>acc_sector = sector, acc_offset = offset, acc_size = sz,
                  acc_hook = read_hook w, acc_status = dev_status w sector offset sz\<rparr>
      in if dev_status w sector offset sz \<noteq> GRUB_ERR_NONE
         then (dev_status w sector offset sz, buf,
               w\<lparr>grub_errno := dev_status w sector offset sz, accesses := accesses w @ [call]\<rparr>)
         else (GRUB_ERR_NONE,
               (\<lambda>i. if i < unat sz then dev_bytes w (unat sector * 512 + unat offset + i)
                    else buf i),
               w\<lparr>accesses := accesses w @ [call]\<rparr>))"

text \<open>
  Modelled from the spec: \<open>grub_malloc\<close> (grub-core/kern/mm.c is not among the sources).
  An allocation either fails, leaving \<open>GRUB_ERR_OUT_OF_MEMORY\<close>, or returns a fresh block.
\<close>

definition grub_malloc :: "world \<Rightarrow> mem option \<times> world" where
  "grub_malloc w =
     (case heap_fresh w (heap_count w) of
        None \<Rightarrow> (None, w\<lparr>grub_errno := GRUB_ERR_OUT_OF_MEMORY, heap_count := heap_count w + 1\<rparr>)
      | Some m \<Rightarrow> (Some m, w\<lparr>heap_count := heap_count w + 1\<rparr>))"

definition grub_memcpy :: "mem \<Rightarrow> mem \<Rightarrow> nat \<Rightarrow> mem" where
  "grub_memcpy dest src n = (\<lambda>i. if i < n then src i else dest i)"

subsection \<open>grub_esfs_read_file\<close>

text \<open>A node: the block size of its volume (\<open>node->data->bsize\<close>) and its copy of the
  directory entry. The disk of the volume is the one of the state.\<close>

record grub_fshelp_node =
  bsize :: "64 word"
  direntry :: mem

text \<open>What the extent loop does not change: the entry, the offset \<open>d\<close> of the DATA
  attribute in it, the block size, the caller's hook, \<open>pos\<close>, the clamped \<open>len\<close> and
  \<open>data_size\<close>.\<close>

record rf_ctx =
  c_de :: mem
  c_d :: nat
  c_bsize :: "64 word"
  c_hook :: "nat option"
  c_hook_data :: "nat option"
  c_pos :: "64 word"
  c_len :: "64 word"
  c_data_size :: "32 word"

text \<open>The variables of the extent loop.\<close>

record rf_vars =
  ext_off :: "32 word"
  cur_pos :: "64 word"
  already_read :: "64 word"
  cur_start :: "64 word"

text \<open>The two inner loops \<open>for (i = 0; i < n; i++) acc = (acc << 8) | d[ext_off++]\<close>;
  the result is the accumulator and the advanced \<open>ext_off\<close>.\<close>

primrec be_accum :: "mem \<Rightarrow> nat \<Rightarrow> nat \<Rightarrow> 32 word \<Rightarrow> 64 word \<Rightarrow> 64 word \<times> 32 word" where
  "be_accum de d 0 eo acc = (acc, eo)"
| "be_accum de d (Suc n) eo acc =
     be_accum de d n (eo + 1) (push_bit 8 acc OR ucast (de (d + unat eo)))"

definition startBytes_of :: "byte \<Rightarrow> byte" where
  "startBytes_of header = (drop_bit 0 header AND 7) + 1"

definition countBytes_of :: "byte \<Rightarrow> byte" where
  "countBytes_of header = (drop_bit 3 header AND 7) + 1"

text \<open>The decoding of one extent record whose header byte has been read: \<open>eo\<close> is
  \<open>ext_off\<close> after the header. The result is \<open>start\<close>, \<open>count\<close> and the advanced
  \<open>ext_off\<close>.\<close>

definition decode_extent :: "mem \<Rightarrow> nat \<Rightarrow> byte \<Rightarrow> 32 word \<Rightarrow> 64 word \<times> 64 word \<times> 32 word" where
  "decode_extent de d header eo =
     (let start0 = (if de (d + unat eo) AND 0x80 \<noteq> 0 then - 1 else 0);
          (start, eo1) = be_accum de d (unat (startBytes_of header)) eo start0;
          (count, eo2) = be_accum de d (unat (countBytes_of header)) eo1 0
      in (start, count, eo2))"

text \<open>One pass through the body of the extent loop: \<open>Inl\<close> is a \<open>return\<close>, \<open>Inr\<close> the
  state with which the loop goes on (by \<open>continue\<close> or at the end of the body).\<close>

definition l1_body ::
  "rf_ctx \<Rightarrow> rf_vars \<Rightarrow> mem \<Rightarrow> world \<Rightarrow> (64 word \<times> mem \<times> world) + (rf_vars \<times> mem \<times> world)" where
  "l1_body c v buf w =
     (let header = c_de c (c_d c + unat (ext_off v));
          eo = ext_off v + 1
      in if eo + ucast (startBytes_of header) + ucast (countBytes_of header) > c_data_size c
         then Inl (already_read v, buf, w)
         else
           (case decode_extent (c_de c) (c_d c) header eo of (start, count, eo2) \<Rightarrow>
              let cur_start1 = cur_start v + start;
                  count_bytes = count * c_bsize c
              in if cur_pos v + count_bytes < c_pos c
                 then Inr (v\<lparr>ext_off := eo2, cur_pos := cur_pos v + count_bytes,
                             cur_start := cur_start1\<rparr>, buf, w)
                 else
                   let add_off = (if cur_pos v < c_pos c then c_pos c - cur_pos v else 0);
                       to_read0 = c_len c - already_read v;
                       to_read = (if to_read0 > count_bytes - add_off
                                  then count_bytes - add_off else to_read0)
                   in (case grub_disk_read
                              (cur_start1 * drop_bit 9 (c_bsize c) + drop_bit 9 add_off)
                              (add_off AND 0x1ff) to_read buf
                              (w\<lparr>read_hook := c_hook c, read_hook_data := c_hook_data c\<rparr>) of
                         (e, buf', w') \<Rightarrow>
                           if e \<noteq> GRUB_ERR_NONE then Inl (- 1, buf', w')
                           else Inr (v\<lparr>ext_off := eo2, cur_pos := cur_pos v + count_bytes,
                                       already_read := already_read v + to_read,
                                       cur_start := cur_start1\<rparr>,
                                     buf', w'\<lparr>read_hook := None\<rparr>))))"

function l1_loop ::
  "rf_ctx \<Rightarrow> nat \<Rightarrow> rf_vars \<Rightarrow> mem \<Rightarrow> world \<Rightarrow> 64 word \<times> mem \<times> world" where
  "l1_loop c extnum v buf w =
     (if already_read v < c_len c \<and> extnum < unat (attr_count (c_de c) (c_d c))
      then (case l1_body c v buf w of
              Inl r \<Rightarrow> r
            | Inr (v', buf', w') \<Rightarrow> l1_loop c (extnum + 1) v' buf' w')
      else (already_read v, buf, w))"
  by pat_completeness auto
termination
  by (relation "measure (\<lambda>(c, extnum, v, buf, w). unat (attr_count (c_de c) (c_d c)) - extnum)")
    auto

declare l1_loop.simps [simp del]

text \<open>The result is the returned \<open>grub_ssize_t\<close> (as its 64 bits: \<open>- 1\<close> is the word of
  all ones), the buffer and the state.\<close>

definition grub_esfs_read_file ::
  "grub_fshelp_node \<Rightarrow> nat option \<Rightarrow> nat option \<Rightarrow> 64 word \<Rightarrow> 64 word \<Rightarrow> mem \<Rightarrow> world
     \<Rightarrow> 64 word \<times> mem \<times> world" where
  "grub_esfs_read_file node hook hook_data pos len buf w =
     (case get_direntry_attribute (direntry node) ESFS_ATTRIBUTE_DATA 32 of
        None \<Rightarrow> (- 1, buf, grub_error GRUB_ERR_BAD_FS ''extents are missing'' w)
      | Some d \<Rightarrow>
          let de = direntry node in
          if ucast (attr_dataOffset de d) > attr_size de d
          then (- 1, buf, grub_error GRUB_ERR_BAD_FS ''data offset is too large'' w)
          else if pos > de_fileSize de then (- 1, buf, w)
          else
            let len1 = (if len + pos > de_fileSize de then de_fileSize de - pos else len);
                data_size = (ucast (attr_size de d) - ucast (attr_dataOffset de d) :: 32 word)
            in if attr_indirection de d = ESFS_INDIRECTION_DIRECT
               then
                 let max_size0 = (ucast (attr_count de d) :: 32 word);
                     max_size = (if max_size0 < data_size then data_size else max_size0)
                 in if pos > ucast max_size then (- 1, buf, w)
                    else
                      let len2 = (if len1 > ucast max_size - pos then ucast max_size - pos else len1)
                      in (len2,
                          grub_memcpy buf (\<lambda>i. de (d + unat (attr_dataOffset de d) + unat pos + i))
                            (unat len2),
                          w)
               else if attr_indirection de d \<noteq> ESFS_INDIRECTION_L1
               then (- 1, buf, grub_error GRUB_ERR_BAD_FS ''unknown redirection'' w)
               else
                 l1_loop
                   \<lparr>c_de = de, c_d = d, c_bsize = bsize node, c_hook = hook,
                    c_hook_data = hook_data, c_pos = pos, c_len = len1, c_data_size = data_size\<rparr>
                   0
                   \<lparr>ext_off = ucast (attr_dataOffset de d), cur_pos = 0, already_read = 0,
                    cur_start = 0\<rparr>
                   buf w)"

text \<open>A test image: a memory that holds the listed bytes and zeroes elsewhere.\<close>

definition mem_of :: "(nat \<times> byte) list \<Rightarrow> mem" where
  "mem_of al = (\<lambda>i. case map_of al i of None \<Rightarrow> 0 | Some b \<Rightarrow> b)"

definition sig_DirEntry :: "(nat \<times> byte) list" where
  "sig_DirEntry = [(0, 0x44), (1, 0x69), (2, 0x72), (3, 0x45), (4, 0x6e), (5, 0x74), (6, 0x72), (7, 0x79)]"

text \<open>A file entry: attributes at 96, a 16-byte FILENAME attribute "a" and then a 40-byte
  DIRECT DATA attribute at 112 with dataOffset 32, count 2 and the eight embedded bytes
  1..8; fileSize 8.\<close>

definition entry_direct :: mem where
  "entry_direct = mem_of (sig_DirEntry @
     [(28, 96), (30, 1), (56, 8),
      (96, 2), (98, 16), (100, 1), (104, 0x61),
      (112, 1), (114, 40), (116, 1), (117, 32), (118, 2),
      (144, 1), (145, 2), (146, 3), (147, 4), (148, 5), (149, 6), (150, 7), (151, 8)])"

text \<open>An entry with the right signature whose attributeOffset is 3: below 96 and not
  8-byte aligned.\<close>

definition entry_badoff :: mem where
  "entry_badoff = mem_of (sig_DirEntry @ [(28, 3), (30, 1)])"

text \<open>An entry with the right signature whose attributeOffset is 8: aligned and below
  96, so that the attribute list starts inside the fixed header. The four bytes at 8 read
  as a FILENAME attribute of size 16, with the name "a".\<close>

definition entry_low :: mem where
  "entry_low = mem_of (sig_DirEntry @
     [(8, 2), (10, 16), (12, 1), (16, 0x61), (28, 8), (30, 1)])"

text \<open>The capacity \<open>max_size\<close> that the DIRECT branch computes, as a number: the larger
  of \<open>count\<close> and \<open>size - dataOffset\<close>.\<close>

definition embedded_cap :: "mem \<Rightarrow> nat \<Rightarrow> nat" where
  "embedded_cap de d =
     max (unat (attr_count de d)) (unat (attr_size de d) - unat (attr_dataOffset de d))"

text \<open>Test states: a device of zeroes on which every read succeeds, the same device with
  every read failing, and a zeroed buffer.\<close>

definition world0 :: world where
  "world0 = \<lparr>grub_errno = GRUB_ERR_NONE, grub_errmsg = [], read_hook = None,
     read_hook_data = None, dev_bytes = (\<lambda>i. 0), dev_status = (\<lambda>s off sz. GRUB_ERR_NONE),
     heap_fresh = (\<lambda>n. Some (\<lambda>i. 0)), heap_count = 0, accesses = []\<rparr>"

definition world_fail :: world where
  "world_fail = world0\<lparr>dev_status := (\<lambda>s off sz. GRUB_ERR_READ_ERROR)\<rparr>"

definition buf0 :: mem where "buf0 = (\<lambda>i. 0)"

text \<open>A file entry of fileSize 2 whose DIRECT DATA attribute (at 96, size 40, dataOffset
  32, count 2) embeds the bytes 1..8.\<close>

definition entry_small :: mem where
  "entry_small = mem_of (sig_DirEntry @
     [(28, 96), (30, 1), (56, 2),
      (96, 1), (98, 40), (100, 1), (101, 32), (102, 2),
      (128, 1), (129, 2), (130, 3), (131, 4), (132, 5), (133, 6), (134, 7), (135, 8)])"

text \<open>A file entry of fileSize 1024 whose L1 DATA attribute (at 96, size 72, dataOffset
  32, count 2) lists the extents (+5, 1 block) and (+2, 1 block).\<close>

definition entry_l1 :: mem where
  "entry_l1 = mem_of (sig_DirEntry @
     [(28, 96), (30, 1), (57, 4),
      (96, 1), (98, 72), (100, 2), (101, 32), (102, 2),
      (128, 0), (129, 5), (130, 1), (131, 0), (132, 2), (133, 1)])"

subsection \<open>grub_esfs_mount\<close>

text \<open>Fields of \<open>struct grub_esfs_superblock\<close> (8192 bytes).\<close>

definition sb_requiredReadVersion :: "mem \<Rightarrow> 16 word" where
  "sb_requiredReadVersion sb = le16 sb 48"
definition sb_blockSize :: "mem \<Rightarrow> 64 word" where "sb_blockSize sb = le64 sb 64"
definition sb_blockCount :: "mem \<Rightarrow> 64 word" where "sb_blockCount sb = le64 sb 72"
definition sb_root_block :: "mem \<Rightarrow> 64 word" where "sb_root_block sb = le64 sb 200"
definition sb_root_offset_into_block :: "mem \<Rightarrow> 32 word" where
  "sb_root_offset_into_block sb = le32 sb 208"

text \<open>
  Modelled from the spec: the macro \<open>grub_cpu_to_le64_compile_time\<close> (include/grub/types.h
  is not among the sources), a conversion to \<open>grub_uint64_t\<close> that is the identity on a
  little-endian host. Its argument \<open>~0xffffe00\<close> is an \<open>int\<close>, so the conversion extends
  the sign: the mask is the raw test \<open>B & ~0x0FFF_FE00\<close> of the specification.
\<close>

definition blockSize_mask :: "64 word" where
  "blockSize_mask = scast (NOT (0xffffe00 :: 32 word))"

text \<open>The mounted volume: the superblock, the block size and the root node
  (\<open>data->disk\<close> is the disk of the state, \<open>data->direntry\<close> points into \<open>diropen\<close>).\<close>

record grub_esfs_data =
  sblock :: mem
  data_bsize :: "64 word"
  diropen :: grub_fshelp_node

text \<open>The label \<open>fail\<close>.\<close>

definition mount_fail :: "world \<Rightarrow> grub_esfs_data option \<times> world" where
  "mount_fail w =
     (None, if grub_errno w = GRUB_ERR_OUT_OF_RANGE
            then grub_error GRUB_ERR_BAD_FS ''not an esfs filesystem'' w else w)"

text \<open>In the allocated \<open>struct grub_esfs_data\<close> the superblock is at offset 0 and the
  entry of \<open>diropen\<close> at offset 8224.\<close>

definition grub_esfs_mount :: "world \<Rightarrow> grub_esfs_data option \<times> world" where
  "grub_esfs_mount w =
     (case grub_malloc w of
        (None, w0) \<Rightarrow> (None, w0)
      | (Some m, w0) \<Rightarrow>
          (case grub_disk_read 16 0 8192 m w0 of (e, sb, w1) \<Rightarrow>
             if grub_errno w1 \<noteq> GRUB_ERR_NONE then mount_fail w1
             else if memcmp_differs sb 0 ESFS_SIGNATURE_STRING
                     \<or> sb_requiredReadVersion sb > ESFS_DRIVER_VERSION
                     \<or> sb_blockSize sb = 0
                     \<or> sb_blockSize sb AND blockSize_mask \<noteq> 0
                     \<or> sb_blockCount sb = 0
             then mount_fail (grub_error GRUB_ERR_BAD_FS ''not an esfs filesystem'' w1)
             else
               (case grub_disk_read (sb_root_block sb * drop_bit 9 (sb_blockSize sb))
                       (ucast (sb_root_offset_into_block sb)) 1024 (\<lambda>i. m (8224 + i)) w1 of
                  (e2, de, w2) \<Rightarrow>
                    if e2 \<noteq> GRUB_ERR_NONE then mount_fail w2
                    else if esfs_check_direntry de = 0
                    then mount_fail (grub_error GRUB_ERR_BAD_FS ''incorrect directory signature'' w2)
                    else (Some \<lparr>sblock = sb, data_bsize = sb_blockSize sb,
                                diropen = \<lparr>bsize = sb_blockSize sb, direntry = de\<rparr>\<rparr>, w2))))"

subsection \<open>grub_esfs_iterate_dir\<close>

datatype grub_fshelp_filetype = GRUB_FSHELP_UNKNOWN | GRUB_FSHELP_DIR | GRUB_FSHELP_REG









subsection \<open>The extent encoding, as the format describes it\<close>

text \<open>The \<open>n\<close> bytes of the attribute at \<open>d\<close> that start at offset \<open>eo\<close>; the value of
  a byte string read as a big-endian unsigned number; and its value read as a
  two's-complement number of that many bytes: the sign is the top bit of the first byte.\<close>

primrec ext_bytes :: "mem \<Rightarrow> nat \<Rightarrow> 32 word \<Rightarrow> nat \<Rightarrow> byte list" where
  "ext_bytes de d eo 0 = []"
| "ext_bytes de d eo (Suc n) = de (d + unat eo) # ext_bytes de d (eo + 1) n"

primrec be_value :: "byte list \<Rightarrow> nat" where
  "be_value [] = 0"
| "be_value (b # bs) = unat b * 256 ^ length bs + be_value bs"

definition be_signed :: "byte list \<Rightarrow> int" where
  "be_signed bs =
     (if bs \<noteq> [] \<and> bit (hd bs) 7 then int (be_value bs) - 2 ^ (8 * length bs)
      else int (be_value bs))"

text \<open>An extent record with a two-byte start field FF FE (the delta -2) and the one-byte
  count 3; its header is at offset 0.\<close>

definition ext_neg :: mem where
  "ext_neg = mem_of [(0, 1), (1, 0xff), (2, 0xfe), (3, 3)]"

text \<open>The conditions under which the specification has the superblock rejected.\<close>

definition sb_rejected :: "mem \<Rightarrow> bool" where
  "sb_rejected sb =
     (map sb [0..<16] \<noteq> map of_char ''!EssenceFS2-----''
      \<or> sb_requiredReadVersion sb > 10
      \<or> sb_blockSize sb = 0
      \<or> sb_blockSize sb AND NOT 0x0FFFFE00 \<noteq> 0
      \<or> sb_blockCount sb = 0)"

text \<open>A device that holds a valid superblock at byte 8192 (version 10, block size 512,
  one block, root entry in block 100) and whose reads fail with
  \<open>GRUB_ERR_OUT_OF_RANGE\<close> everywhere but at sector 16.\<close>

definition superblock_image :: "(nat \<times> byte) list" where
  "superblock_image =
     [(8192, 0x21), (8193, 0x45), (8194, 0x73), (8195, 0x73), (8196, 0x65), (8197, 0x6e),
      (8198, 0x63), (8199, 0x65), (8200, 0x46), (8201, 0x53), (8202, 0x32), (8203, 0x2d),
      (8204, 0x2d), (8205, 0x2d), (8206, 0x2d), (8207, 0x2d),
      (8240, 10), (8257, 2), (8264, 1), (8392, 100)]"

definition world_oor :: world where
  "world_oor = world0\<lparr>dev_bytes := mem_of superblock_image,
     dev_status := (\<lambda>s off sz. if s = 16 then GRUB_ERR_NONE else GRUB_ERR_OUT_OF_RANGE)\<rparr>"








text \<open>A file entry whose DIRECT DATA attribute fills the last 32 bytes of the entry
  (at 992, size 32, dataOffset 32): it has no room for data, but its count is 65535.\<close>

definition entry_oob :: mem where
  "entry_oob = mem_of (sig_DirEntry @
     [(28, 0xe0), (29, 3), (30, 1), (57, 16),
      (992, 1), (994, 32), (996, 1), (997, 32), (998, 0xff), (999, 0xff)])"

subsection \<open>The read hook, for stating what a call leaves behind\<close>

text \<open>After a call the hook slot of the disk is clear, or the call has returned -1 with an
  error set and the caller's hook still installed; and the calls of \<open>grub_disk_read\<close>
  that a step has added to the log were all made with the given hook installed.\<close>

definition hook_left :: "nat option \<Rightarrow> 64 word \<times> mem \<times> world \<Rightarrow> bool" where
  "hook_left hook res =
     (read_hook (snd (snd res)) = None
      \<or> (fst res = - 1 \<and> grub_errno (snd (snd res)) \<noteq> GRUB_ERR_NONE
          \<and> read_hook (snd (snd res)) = hook))"

definition reads_hooked :: "nat option \<Rightarrow> world \<Rightarrow> world \<Rightarrow> bool" where
  "reads_hooked hook w w' =
     (\<exists>new. accesses w' = accesses w @ new \<and> list_all (\<lambda>a. acc_hook a = hook) new)"

section \<open>The test images\<close>

lemma upt_8: "[0..<8] = [0, 1, 2, 3, 4, 5, 6, 7 :: nat]"
  by (simp add: upt_rec)

lemmas field_defs = get_direntry_attribute_def get_attr_loop.simps de_attributeOffset_def
  de_nodeType_def de_fileSize_def attr_type_def attr_size_def attr_indirection_def
  attr_dataOffset_def attr_count_def attr_length_def le16_def le32_def le64_def mem_of_def
  sig_DirEntry_def ESFS_ATTRIBUTE_DATA_def ESFS_ATTRIBUTE_FILENAME_def

lemma entry_direct_fields:
  "get_direntry_attribute entry_direct ESFS_ATTRIBUTE_DATA 32 = Some 112"
  "attr_size entry_direct 112 = 40"
  "attr_dataOffset entry_direct 112 = 32"
  "attr_count entry_direct 112 = 2"
  "attr_indirection entry_direct 112 = 1"
  "de_fileSize entry_direct = 8"
  "entry_direct 151 = 8"
  by (simp_all add: field_defs entry_direct_def)

lemma entry_small_fields:
  "get_direntry_attribute entry_small ESFS_ATTRIBUTE_DATA 32 = Some 96"
  "attr_size entry_small 96 = 40"
  "attr_dataOffset entry_small 96 = 32"
  "attr_count entry_small 96 = 2"
  "attr_indirection entry_small 96 = 1"
  "de_fileSize entry_small = 2"
  by (simp_all add: field_defs entry_small_def)

lemma entry_oob_fields:
  "get_direntry_attribute entry_oob ESFS_ATTRIBUTE_DATA 32 = Some 992"
  "attr_size entry_oob 992 = 32"
  "attr_dataOffset entry_oob 992 = 32"
  "attr_count entry_oob 992 = 0xffff"
  "attr_indirection entry_oob 992 = 1"
  "de_fileSize entry_oob = 4096"
  by (simp_all add: field_defs entry_oob_def)

lemma entry_l1_fields:
  "get_direntry_attribute entry_l1 ESFS_ATTRIBUTE_DATA 32 = Some 96"
  "attr_size entry_l1 96 = 72"
  "attr_dataOffset entry_l1 96 = 32"
  "attr_count entry_l1 96 = 2"
  "attr_indirection entry_l1 96 = 2"
  "de_fileSize entry_l1 = 1024"
  "entry_l1 128 = 0" "entry_l1 129 = 5" "entry_l1 130 = 1"
  by (simp_all add: field_defs entry_l1_def)

lemma entry_badoff_fields:
  "map entry_badoff [0..<8] = map of_char ''DirEntry''"
  "de_attributeOffset entry_badoff = 3"
  by (simp_all add: field_defs entry_badoff_def upt_8)

lemma entry_low_fields:
  "map entry_low [0..<8] = map of_char ''DirEntry''"
  "de_attributeOffset entry_low = 8"
  "attr_type entry_low 8 = 2"
  "attr_size entry_low 8 = 16"
  by (simp_all add: field_defs entry_low_def upt_8)



lemma entry_l1_extent: "decode_extent entry_l1 96 0 33 = (5, 1, 35)"
  by (simp add: decode_extent_def startBytes_of_def countBytes_of_def entry_l1_fields)


lemma direntry_signature_differs:
  "memcmp_differs entry 0 ESFS_DIRECTORY_ENTRY_SIGNATURE
     = (map entry [0..<8] \<noteq> map of_char ''DirEntry'')"
proof -
  have len: "length ESFS_DIRECTORY_ENTRY_SIGNATURE = 8"
    by (simp add: ESFS_DIRECTORY_ENTRY_SIGNATURE_def)
  show ?thesis
    unfolding memcmp_differs_def len unfolding ESFS_DIRECTORY_ENTRY_SIGNATURE_def
    by (simp only: add_0)
qed

section \<open>Attribute lookup stays inside the entry\<close>

lemma get_attr_loop_sound:
  "get_attr_loop de attrid minsize off = Some a \<Longrightarrow>
     a mod 8 = 0 \<and> 4 \<le> unat (attr_size de a) \<and> minsize \<le> ucast (attr_size de a)
     \<and> a + unat (attr_size de a) \<le> 1024 \<and> attr_type de a = attrid \<and> unat off \<le> a"
proof (induction de attrid minsize off rule: get_attr_loop.induct)
  case (1 de attrid minsize off)
  define attr where "attr = 8 * (unat off div 8)"
  define asize where "asize = attr_size de attr"
  note step = get_attr_loop.simps [of de attrid minsize off]
  from "1.prems" have le: "off \<le> 1020" and al: "off AND 7 = 0"
    and ok: "\<not> (asize < 4 \<or> ucast asize + off > 1024)"
    by (auto simp: step Let_def attr_def asize_def split: if_splits)
  have "off AND 7 = take_bit 3 off" by (simp add: take_bit_eq_mask mask_eq_exp_minus_1)
  then have "unat (off AND 7) = take_bit 3 (unat off)"
    by (simp only: unsigned_take_bit_eq)
  then have "unat (off AND 7) = unat off mod 8"
    by (simp add: take_bit_eq_mod)
  then have m: "unat off mod 8 = 0" using al by simp
  then have at: "attr = unat off" unfolding attr_def by auto
  have o: "unat off \<le> 1020" using le by (simp add: word_le_nat_alt)
  have s: "unat asize < 2 ^ 16" using unsigned_less [of asize, where 'a = nat] by simp
  then have "unat asize < 2 ^ 32" by simp
  then have u: "unat (ucast asize :: 32 word) = unat asize"
    by (simp add: unsigned_ucast_eq take_bit_nat_eq_self)
  have "unat off + unat (ucast asize :: 32 word) < 2 ^ 32" using o s u by simp
  then have e: "unat (off + ucast asize) = unat off + unat asize"
    using u by (simp add: unat_add_lem [THEN iffD1])
  have c: "4 \<le> unat asize" using ok by (simp add: word_less_nat_alt not_less)
  have "off + ucast asize \<le> 1024" using ok by (simp add: add.commute not_less)
  then have b: "unat off + unat asize \<le> 1024" using e by (simp add: word_le_nat_alt)
  show ?case
  proof (cases "attr_type de attr = attrid \<and> ucast asize \<ge> minsize")
    case True
    with "1.prems" le al ok have "a = attr"
      by (simp add: step Let_def attr_def asize_def)
    with True m at c b show ?thesis by (simp add: asize_def)
  next
    case False
    with "1.prems" le al ok
    have r: "get_attr_loop de attrid minsize (off + ucast asize) = Some a"
      by (auto simp: step Let_def attr_def asize_def split: if_splits)
    have "a mod 8 = 0 \<and> 4 \<le> unat (attr_size de a) \<and> minsize \<le> ucast (attr_size de a)
        \<and> a + unat (attr_size de a) \<le> 1024 \<and> attr_type de a = attrid
        \<and> unat (off + ucast asize) \<le> a"
      using "1.IH" [OF _ _ attr_def] le al ok False r
      by (simp add: asize_def)
    then show ?thesis using e by simp
  qed
qed

text \<open>
  Claim C10. For every directory entry, attribute type and minimum size: when
  \<open>get_direntry_attribute\<close> returns an attribute (otherwise it returns none), the attribute
  is at an 8-byte-aligned offset of the entry, its size is at least 4 and at least the
  requested minimum, and offset plus size is at most 1024, so the attribute lies wholly
  inside the 1024-byte entry, whatever attributeOffset and the list hold.
\<close>

theorem get_direntry_attribute_inside_entry:
  "get_direntry_attribute de attrid minsize = Some a \<Longrightarrow>
     a mod 8 = 0 \<and> 4 \<le> unat (attr_size de a) \<and> minsize \<le> ucast (attr_size de a)
     \<and> a + unat (attr_size de a) \<le> 1024"
  unfolding get_direntry_attribute_def by (drule get_attr_loop_sound) simp

theorem get_direntry_attribute_inside_entry_witness:
  "get_direntry_attribute entry_direct ESFS_ATTRIBUTE_DATA 32 = Some 112
   \<and> (112 :: nat) mod 8 = 0 \<and> 4 \<le> unat (attr_size entry_direct 112)
   \<and> (32 :: 64 word) \<le> ucast (attr_size entry_direct 112)
   \<and> 112 + unat (attr_size entry_direct 112) \<le> 1024"
proof -
  have h: "get_direntry_attribute entry_direct ESFS_ATTRIBUTE_DATA 32 = Some 112"
    by (rule entry_direct_fields(1))
  from get_direntry_attribute_inside_entry [OF h] h show ?thesis by simp
qed

section \<open>What the directory-entry check looks at\<close>

lemma get_attr_loop_misaligned:
  "off AND 7 \<noteq> 0 \<Longrightarrow> get_attr_loop de attrid minsize off = None"
  by (simp add: get_attr_loop.simps [of de attrid minsize off])

lemma get_attr_loop_beyond:
  "1020 < off \<Longrightarrow> get_attr_loop de attrid minsize off = None"
  by (simp add: get_attr_loop.simps [of de attrid minsize off] not_le [symmetric])

lemma get_attr_loop_first:
  assumes "off \<le> 1020" "off AND 7 = 0"
    and "4 \<le> unat (attr_size de (unat off))"
    and "unat off + unat (attr_size de (unat off)) \<le> 1024"
    and "attr_type de (unat off) = attrid"
    and "minsize \<le> ucast (attr_size de (unat off))"
  shows "get_attr_loop de attrid minsize off = Some (unat off)"
proof -
  define asize where "asize = attr_size de (unat off)"
  have "off AND 7 = take_bit 3 off" by (simp add: take_bit_eq_mask mask_eq_exp_minus_1)
  then have "unat (off AND 7) = take_bit 3 (unat off)"
    by (simp only: unsigned_take_bit_eq)
  then have "unat (off AND 7) = unat off mod 8"
    by (simp add: take_bit_eq_mod)
  then have m: "unat off mod 8 = 0" using assms(2) by simp
  then have at: "8 * (unat off div 8) = unat off" by auto
  have s: "unat asize < 2 ^ 16" using unsigned_less [of asize, where 'a = nat] by simp
  then have "unat asize < 2 ^ 32" by simp
  then have u: "unat (ucast asize :: 32 word) = unat asize"
    by (simp add: unsigned_ucast_eq take_bit_nat_eq_self)
  have "unat (ucast asize :: 32 word) + unat off < 2 ^ 32"
    using assms(4) u by (simp add: asize_def)
  then have e: "unat (ucast asize + off) = unat asize + unat off"
    using u by (simp add: unat_add_lem [THEN iffD1])
  have c1: "\<not> asize < 4" using assms(3) by (simp add: asize_def word_less_nat_alt)
  have c2: "\<not> 1024 < ucast asize + off"
    using assms(4) e by (simp add: asize_def word_less_nat_alt)
  show ?thesis
    using assms(1,2,5,6) c1 c2
    by (simp add: get_attr_loop.simps [of de attrid minsize off] Let_def at asize_def)
qed

text \<open>
  Claim C9, as stated, fails: \<open>esfs_check_direntry\<close> accepts an entry with the right
  signature whose attributeOffset is 3, outside [96, 1020] and not 8-byte aligned.
\<close>

theorem esfs_check_direntry_counterexample:
  "esfs_check_direntry entry_badoff = 1
   \<and> \<not> (96 \<le> de_attributeOffset entry_badoff \<and> de_attributeOffset entry_badoff \<le> 1020
          \<and> de_attributeOffset entry_badoff AND 7 = 0)"
  by (simp add: esfs_check_direntry_def direntry_signature_differs entry_badoff_fields)

text \<open>
  Claim C9, amended. The check accepts a buffer exactly when its first 8 bytes are
  "DirEntry" and rejects it otherwise; it does not look at attributeOffset. An
  attributeOffset that exceeds 1020 or is not 8-byte aligned makes every attribute lookup
  on the entry return no attribute. No lower bound is enforced on attributeOffset: when
  it is at most 1020 and 8-byte aligned, and the four bytes there read as an attribute of
  the requested type whose size is at least 4 and at least the requested minimum and which
  ends inside the 1024 bytes, the lookup returns attributeOffset itself, whether or not it
  is below 96.
\<close>

theorem esfs_check_direntry_signature_only:
  "(esfs_check_direntry entry = 1) = (map entry [0..<8] = map of_char ''DirEntry'')
   \<and> (esfs_check_direntry entry = 0) = (map entry [0..<8] \<noteq> map of_char ''DirEntry'')
   \<and> (1020 < de_attributeOffset entry \<or> de_attributeOffset entry AND 7 \<noteq> 0
        \<longrightarrow> get_direntry_attribute entry attrid minsize = None)
   \<and> (de_attributeOffset entry \<le> 1020 \<and> de_attributeOffset entry AND 7 = 0
        \<and> 4 \<le> unat (attr_size entry (unat (de_attributeOffset entry)))
        \<and> unat (de_attributeOffset entry)
            + unat (attr_size entry (unat (de_attributeOffset entry))) \<le> 1024
        \<and> attr_type entry (unat (de_attributeOffset entry)) = attrid
        \<and> minsize \<le> ucast (attr_size entry (unat (de_attributeOffset entry)))
        \<longrightarrow> get_direntry_attribute entry attrid minsize
              = Some (unat (de_attributeOffset entry)))"
proof -
  define ao where "ao = de_attributeOffset entry"
  have u: "unat (ucast w :: 32 word) = unat w" for w :: "16 word"
  proof -
    have "unat w < 2 ^ 16" using unsigned_less [of w, where 'a = nat] by simp
    then have "unat w < 2 ^ 32" by simp
    then show ?thesis by (simp add: unsigned_ucast_eq take_bit_nat_eq_self)
  qed
  have a: "ucast ao AND (7 :: 32 word) = ucast (ao AND 7)"
    by (simp add: unsigned_and_eq)
  have "(unat (ucast (ao AND 7) :: 32 word) = 0) = (unat (ao AND 7) = 0)"
    by (simp only: u)
  then have b: "(ucast (ao AND 7) = (0 :: 32 word)) = (ao AND 7 = 0)"
    by (simp only: unat_eq_0)
  have c: "(1020 < (ucast ao :: 32 word)) = (1020 < ao)"
    by (simp add: word_less_nat_alt u)
  have m: "ao AND 7 \<noteq> 0 \<Longrightarrow> get_attr_loop entry attrid minsize (ucast ao) = None"
    using get_attr_loop_misaligned [of "ucast ao" entry attrid minsize] by (simp add: a b)
  have l: "1020 < ao \<Longrightarrow> get_attr_loop entry attrid minsize (ucast ao) = None"
    using get_attr_loop_beyond [of "ucast ao" entry attrid minsize] by (simp add: c)
  have len: "length ESFS_DIRECTORY_ENTRY_SIGNATURE = 8"
    by (simp add: ESFS_DIRECTORY_ENTRY_SIGNATURE_def)
  have md: "memcmp_differs entry 0 ESFS_DIRECTORY_ENTRY_SIGNATURE
      = (map entry [0..<8] \<noteq> map of_char ''DirEntry'')"
    unfolding memcmp_differs_def len unfolding ESFS_DIRECTORY_ENTRY_SIGNATURE_def
    by (simp only: add_0)
  have s1: "(esfs_check_direntry entry = 1) = (map entry [0..<8] = map of_char ''DirEntry'')"
    unfolding esfs_check_direntry_def md
    by (cases "map entry [0..<8] = map of_char ''DirEntry''") (simp_all only: if_True if_False, simp_all)
  have s0: "(esfs_check_direntry entry = 0) = (map entry [0..<8] \<noteq> map of_char ''DirEntry'')"
    unfolding esfs_check_direntry_def md
    by (cases "map entry [0..<8] = map of_char ''DirEntry''") (simp_all only: if_True if_False, simp_all)
  have f: "get_attr_loop entry attrid minsize (ucast ao) = Some (unat ao)"
    if h: "ao \<le> 1020" "ao AND 7 = 0" "4 \<le> unat (attr_size entry (unat ao))"
      "unat ao + unat (attr_size entry (unat ao)) \<le> 1024"
      "attr_type entry (unat ao) = attrid" "minsize \<le> ucast (attr_size entry (unat ao))"
  proof -
    have o: "(ucast ao :: 32 word) \<le> 1020" using h(1) by (simp add: word_le_nat_alt u)
    have al: "ucast ao AND (7 :: 32 word) = 0" using h(2) by (simp add: a)
    have "unat (ucast ao :: 32 word) = unat ao" by (rule u)
    then show ?thesis using get_attr_loop_first [OF o al, of entry attrid minsize] h(3-6)
      by simp
  qed
  show ?thesis
    using m l s1 s0 f unfolding get_direntry_attribute_def ao_def by blast
qed

theorem esfs_check_direntry_signature_only_witness:
  "esfs_check_direntry entry_badoff = 1
   \<and> de_attributeOffset entry_badoff AND 7 \<noteq> 0
   \<and> get_direntry_attribute entry_badoff ESFS_ATTRIBUTE_FILENAME 8 = None
   \<and> esfs_check_direntry entry_low = 1
   \<and> de_attributeOffset entry_low = 8
   \<and> de_attributeOffset entry_low < 96
   \<and> get_direntry_attribute entry_low ESFS_ATTRIBUTE_FILENAME 8 = Some 8"
proof -
  have h: "de_attributeOffset entry_badoff AND 7 \<noteq> 0" by (simp add: entry_badoff_fields)
  have s: "map entry_badoff [0..<8] = map of_char ''DirEntry''" by (rule entry_badoff_fields(1))
  note f = entry_low_fields
  from esfs_check_direntry_signature_only [of entry_badoff ESFS_ATTRIBUTE_FILENAME 8] h s
  have a: "esfs_check_direntry entry_badoff = 1
     \<and> get_direntry_attribute entry_badoff ESFS_ATTRIBUTE_FILENAME 8 = None" by simp
  from esfs_check_direntry_signature_only [of entry_low ESFS_ATTRIBUTE_FILENAME 8]
  have b: "esfs_check_direntry entry_low = 1
     \<and> get_direntry_attribute entry_low ESFS_ATTRIBUTE_FILENAME 8 = Some 8"
    by (simp add: f ESFS_ATTRIBUTE_FILENAME_def)
  show ?thesis using a b h by (simp add: f)
qed

section \<open>Reading a file: the DIRECT branch\<close>

lemma unat_ucast_up:
  "LENGTH('a::len) \<le> LENGTH('b::len) \<Longrightarrow> unat (ucast (w :: 'a word) :: 'b word) = unat w"
proof -
  assume l: "LENGTH('a) \<le> LENGTH('b)"
  have "unat w < 2 ^ LENGTH('a)" by (rule unsigned_less)
  also have "(2::nat) ^ LENGTH('a) \<le> 2 ^ LENGTH('b)" using l by (simp add: power_increasing)
  finally show ?thesis by (simp add: unsigned_ucast_eq take_bit_nat_eq_self)
qed

lemma unat_data_size:
  fixes sz :: "16 word" and off :: "8 word"
  assumes "\<not> ucast off > sz"
  shows "unat (ucast sz - ucast off :: 32 word) = unat sz - unat off"
proof -
  have "unat (ucast off :: 16 word) \<le> unat sz" using assms by (simp add: word_less_nat_alt)
  then have "unat off \<le> unat sz" by (simp add: unat_ucast_up)
  then have "(ucast off :: 32 word) \<le> ucast sz" by (simp add: word_le_nat_alt unat_ucast_up)
  then show ?thesis by (simp add: unat_sub unat_ucast_up)
qed

lemma direct_max_size:
  assumes "\<not> ucast (attr_dataOffset de d) > attr_size de d"
  defines "data_size \<equiv> (ucast (attr_size de d) - ucast (attr_dataOffset de d) :: 32 word)"
  defines "max_size \<equiv>
    (if (ucast (attr_count de d) :: 32 word) < data_size then data_size else ucast (attr_count de d))"
  shows "unat (ucast max_size :: 64 word) = embedded_cap de d"
proof -
  have "unat data_size = unat (attr_size de d) - unat (attr_dataOffset de d)"
    unfolding data_size_def using assms(1) by (rule unat_data_size)
  then have "unat max_size = embedded_cap de d"
    by (simp add: max_size_def embedded_cap_def word_less_nat_alt unat_ucast_up max_def)
  then show ?thesis by (simp add: unat_ucast_up)
qed

text \<open>
  Claim C4, as stated, fails: on an entry of fileSize 2 whose DIRECT DATA attribute has
  \<open>embedded_cap = 8\<close>, a read of one byte at position 5 is not beyond \<open>embedded_cap\<close>,
  yet it returns -1 and copies nothing: the byte of the buffer stays 0, while the embedded
  byte at offset \<open>dataOffset + pos\<close> is 6. The fileSize check precedes the branch.
\<close>

theorem read_file_direct_fileSize_counterexample:
  "get_direntry_attribute entry_small ESFS_ATTRIBUTE_DATA 32 = Some 96
   \<and> attr_indirection entry_small 96 = ESFS_INDIRECTION_DIRECT
   \<and> unat (5 :: 64 word) \<le> embedded_cap entry_small 96
   \<and> fst (grub_esfs_read_file \<lparr>bsize = 512, direntry = entry_small\<rparr>
             None None 5 1 buf0 world0) = - 1
   \<and> fst (snd (grub_esfs_read_file \<lparr>bsize = 512, direntry = entry_small\<rparr>
                  None None 5 1 buf0 world0)) 0 = 0
   \<and> entry_small (96 + unat (attr_dataOffset entry_small 96) + unat (5 :: 64 word) + 0) = 6"
proof -
  have b: "entry_small 133 = 6" by (simp add: entry_small_def mem_of_def sig_DirEntry_def)
  show ?thesis
    by (simp add: grub_esfs_read_file_def entry_small_fields Let_def ESFS_INDIRECTION_DIRECT_def
        embedded_cap_def b buf0_def)
qed

text \<open>
  Claim C4, amended. For a node whose DATA attribute \<open>d\<close> has indirection DIRECT, with
  \<open>embedded_cap = max count (size - dataOffset)\<close>: the call makes no device read. If
  \<open>dataOffset > size\<close>, or \<open>pos > fileSize\<close>, or \<open>pos > embedded_cap\<close>, it returns -1 and
  every byte of the buffer is as it was. Otherwise, that is when \<open>dataOffset \<le> size\<close>
  and \<open>pos \<le> fileSize\<close> (the two checks that precede the branch) and
  \<open>pos \<le> embedded_cap\<close>, the length, already clamped to fileSize, is clamped to
  \<open>embedded_cap - pos\<close>; that number \<open>n\<close> is returned; byte \<open>i\<close> of the buffer is the
  entry's byte at attribute offset \<open>dataOffset + pos + i\<close> for \<open>i < n\<close> and is as it was
  for \<open>i \<ge> n\<close>; and the state is left as it was.
\<close>

theorem read_file_direct:
  fixes de :: mem and b :: "64 word" and hook hook_data :: "nat option" and pos len :: "64 word"
    and buf :: mem and w :: world
  assumes found: "get_direntry_attribute de ESFS_ATTRIBUTE_DATA 32 = Some d"
    and direct: "attr_indirection de d = ESFS_INDIRECTION_DIRECT"
  defines "r \<equiv> grub_esfs_read_file \<lparr>bsize = b, direntry = de\<rparr> hook hook_data pos len buf w"
  defines "len1 \<equiv> (if de_fileSize de < len + pos then de_fileSize de - pos else len)"
  shows "accesses (snd (snd r)) = accesses w
    \<and> (embedded_cap de d < unat pos \<longrightarrow> fst r = - 1)
    \<and> (attr_size de d < ucast (attr_dataOffset de d) \<or> de_fileSize de < pos
         \<or> embedded_cap de d < unat pos \<longrightarrow>
        fst r = - 1 \<and> (\<forall>i. fst (snd r) i = buf i))
    \<and> (\<not> attr_size de d < ucast (attr_dataOffset de d) \<and> pos \<le> de_fileSize de
         \<and> unat pos \<le> embedded_cap de d \<longrightarrow>
        unat (fst r) = min (unat len1) (embedded_cap de d - unat pos)
        \<and> (\<forall>i. fst (snd r) i =
               (if i < unat (fst r) then de (d + unat (attr_dataOffset de d) + unat pos + i)
                else buf i))
        \<and> snd (snd r) = w)"
proof (cases "attr_size de d < ucast (attr_dataOffset de d)")
  case True
  then show ?thesis using found direct
    by (simp add: r_def grub_esfs_read_file_def grub_error_def)
next
  case ok: False
  define max_size :: "32 word" where "max_size =
    (if (ucast (attr_count de d) :: 32 word) < ucast (attr_size de d) - ucast (attr_dataOffset de d)
     then ucast (attr_size de d) - ucast (attr_dataOffset de d) else ucast (attr_count de d))"
  have cap: "unat (ucast max_size :: 64 word) = embedded_cap de d"
    unfolding max_size_def using ok by (rule direct_max_size)
  show ?thesis
  proof (cases "de_fileSize de < pos")
    case True
    then show ?thesis using found direct ok
      by (simp add: r_def grub_esfs_read_file_def not_le [symmetric])
  next
    case False
    have r0: "r = (if ucast max_size < pos then (- 1, buf, w) else
          (let len2 = (if ucast max_size - pos < len1 then ucast max_size - pos else len1)
           in (len2,
               grub_memcpy buf (\<lambda>i. de (d + unat (attr_dataOffset de d) + unat pos + i)) (unat len2),
               w)))"
      using found direct ok False
      by (simp add: r_def grub_esfs_read_file_def Let_def max_size_def len1_def)
    show ?thesis
    proof (cases "ucast max_size < pos")
      case True
      then have "fst r = - 1 \<and> snd (snd r) = w \<and> fst (snd r) = buf" by (simp add: r0)
      moreover have "embedded_cap de d < unat pos" using True cap by (simp add: word_less_nat_alt)
      ultimately show ?thesis by simp
    next
      case np: False
      have le: "unat pos \<le> embedded_cap de d" using np cap by (simp add: word_less_nat_alt)
      have sub: "unat (ucast max_size - pos) = embedded_cap de d - unat pos"
        using np cap by (simp add: unat_sub not_less)
      have r: "r = (let len2 = (if ucast max_size - pos < len1 then ucast max_size - pos else len1)
          in (len2,
              grub_memcpy buf (\<lambda>i. de (d + unat (attr_dataOffset de d) + unat pos + i)) (unat len2),
              w))"
        using np by (simp add: r0)
      have "unat (fst r) = min (unat len1) (embedded_cap de d - unat pos)"
        using sub by (simp add: r Let_def word_less_nat_alt min_def)
      then show ?thesis using le ok False by (simp add: r Let_def grub_memcpy_def)
    qed
  qed
qed

theorem read_file_direct_witness:
  "get_direntry_attribute entry_direct ESFS_ATTRIBUTE_DATA 32 = Some 112
   \<and> attr_indirection entry_direct 112 = ESFS_INDIRECTION_DIRECT
   \<and> embedded_cap entry_direct 112 = 8
   \<and> unat (fst (grub_esfs_read_file \<lparr>bsize = 512, direntry = entry_direct\<rparr>
                  None None 2 3 buf0 world0)) = 3
   \<and> fst (snd (grub_esfs_read_file \<lparr>bsize = 512, direntry = entry_direct\<rparr>
                  None None 2 3 buf0 world0)) 0 = 3
   \<and> fst (snd (grub_esfs_read_file \<lparr>bsize = 512, direntry = entry_direct\<rparr>
                  None None 2 3 buf0 world0)) 2 = 5
   \<and> fst (snd (grub_esfs_read_file \<lparr>bsize = 512, direntry = entry_direct\<rparr>
                  None None 2 3 buf0 world0)) 3 = buf0 3
   \<and> snd (snd (grub_esfs_read_file \<lparr>bsize = 512, direntry = entry_direct\<rparr>
                  None None 2 3 buf0 world0)) = world0
   \<and> de_fileSize entry_direct < 9
   \<and> fst (grub_esfs_read_file \<lparr>bsize = 512, direntry = entry_direct\<rparr>
             None None 9 3 buf0 world0) = - 1
   \<and> fst (snd (grub_esfs_read_file \<lparr>bsize = 512, direntry = entry_direct\<rparr>
                  None None 9 3 buf0 world0)) 0 = buf0 0"
proof -
  note f = entry_direct_fields
  have h2: "attr_indirection entry_direct 112 = ESFS_INDIRECTION_DIRECT"
    by (simp add: f ESFS_INDIRECTION_DIRECT_def)
  have h5: "embedded_cap entry_direct 112 = 8" by (simp add: embedded_cap_def f)
  have b: "entry_direct 146 = 3" "entry_direct 148 = 5"
    by (simp_all add: entry_direct_def mem_of_def sig_DirEntry_def)
  note t = read_file_direct [OF f(1) h2, of 512 None None 2 3 buf0 world0]
  note u = read_file_direct [OF f(1) h2, of 512 None None 9 3 buf0 world0]
  have t4: "unat (fst (grub_esfs_read_file \<lparr>bsize = 512, direntry = entry_direct\<rparr>
                  None None 2 3 buf0 world0)) = 3
      \<and> (\<forall>i. fst (snd (grub_esfs_read_file \<lparr>bsize = 512, direntry = entry_direct\<rparr>
                  None None 2 3 buf0 world0)) i =
             (if i < 3 then entry_direct (146 + i) else buf0 i))
      \<and> snd (snd (grub_esfs_read_file \<lparr>bsize = 512, direntry = entry_direct\<rparr>
                  None None 2 3 buf0 world0)) = world0"
    using t h5 by (simp add: f)
  have u3: "fst (grub_esfs_read_file \<lparr>bsize = 512, direntry = entry_direct\<rparr>
             None None 9 3 buf0 world0) = - 1
      \<and> (\<forall>i. fst (snd (grub_esfs_read_file \<lparr>bsize = 512, direntry = entry_direct\<rparr>
                  None None 9 3 buf0 world0)) i = buf0 i)"
    using u h5 by (simp add: f)
  show ?thesis using t4 u3 h2 h5 b by (simp add: f)
qed

text \<open>
  Claim C3 is violated by the code: the capacity of the DIRECT branch is the larger, not
  the smaller, of \<open>count\<close> and \<open>size - dataOffset\<close>. On an entry whose DATA attribute has
  count 2 and size - dataOffset 8, a read of 8 bytes at position 0 returns 8 and copies
  the embedded byte at offset 7, beyond \<open>min count (size - dataOffset) = 2\<close>. On an entry
  whose DATA attribute ends the entry, with size - dataOffset 0 and count 65535, a read
  of 64 bytes returns 64 bytes taken from offset 1024 on, outside the entry.
\<close>

theorem read_file_direct_copies_beyond_min:
  "get_direntry_attribute entry_direct ESFS_ATTRIBUTE_DATA 32 = Some 112
   \<and> attr_indirection entry_direct 112 = ESFS_INDIRECTION_DIRECT
   \<and> min (unat (attr_count entry_direct 112))
         (unat (attr_size entry_direct 112) - unat (attr_dataOffset entry_direct 112)) = 2
   \<and> fst (grub_esfs_read_file \<lparr>bsize = 512, direntry = entry_direct\<rparr>
             None None 0 8 buf0 world0) = 8
   \<and> fst (snd (grub_esfs_read_file \<lparr>bsize = 512, direntry = entry_direct\<rparr>
                  None None 0 8 buf0 world0)) 7
       = entry_direct (112 + unat (attr_dataOffset entry_direct 112) + 7)
   \<and> entry_direct (112 + unat (attr_dataOffset entry_direct 112) + 7) = 8
   \<and> get_direntry_attribute entry_oob ESFS_ATTRIBUTE_DATA 32 = Some 992
   \<and> attr_indirection entry_oob 992 = ESFS_INDIRECTION_DIRECT
   \<and> min (unat (attr_count entry_oob 992))
         (unat (attr_size entry_oob 992) - unat (attr_dataOffset entry_oob 992)) = 0
   \<and> fst (grub_esfs_read_file \<lparr>bsize = 512, direntry = entry_oob\<rparr>
             None None 0 64 buf0 world0) = 64
   \<and> fst (snd (grub_esfs_read_file \<lparr>bsize = 512, direntry = entry_oob\<rparr>
                  None None 0 64 buf0 world0)) 0 = entry_oob 1024"
  by (simp add: grub_esfs_read_file_def entry_direct_fields entry_oob_fields Let_def
      ESFS_INDIRECTION_DIRECT_def grub_memcpy_def)

section \<open>Reading a file: the fileSize checks\<close>

lemma clamp_idem:
  fixes pos len fs :: "64 word"
  assumes "pos \<le> fs" "unat len + unat pos < 2 ^ 64"
  shows "(if fs < min len (fs - pos) + pos then fs - pos else min len (fs - pos))
       = (if fs < len + pos then fs - pos else len)"
proof -
  have a: "unat (len + pos) = unat len + unat pos"
    using assms(2) by (simp add: unat_add_lem [THEN iffD1])
  have s: "unat (fs - pos) = unat fs - unat pos" using assms(1) by (simp add: unat_sub)
  have p: "unat pos \<le> unat fs" using assms(1) by (simp add: word_le_nat_alt)
  have b: "fs - pos + pos = fs" by simp
  show ?thesis
  proof (cases "fs < len + pos")
    case True
    then have "unat fs < unat len + unat pos" using a by (simp add: word_less_nat_alt)
    then have "fs - pos \<le> len" using s p by (simp add: word_le_nat_alt)
    then have "min len (fs - pos) = fs - pos" by (simp add: min_def)
    then show ?thesis using True b by simp
  next
    case False
    then have "unat len + unat pos \<le> unat fs" using a by (simp add: word_less_nat_alt not_less)
    then have "len \<le> fs - pos" using s p by (simp add: word_le_nat_alt)
    then have "min len (fs - pos) = len" by (simp add: min_def)
    then show ?thesis using False by simp
  qed
qed

text \<open>
  Claim C6, as stated, fails at \<open>pos = fileSize\<close>: the entry has fileSize 8, and a read
  at position 8 returns 0, not -1.
\<close>

theorem read_file_at_fileSize_counterexample:
  "de_fileSize entry_direct \<le> 8
   \<and> fst (grub_esfs_read_file \<lparr>bsize = 512, direntry = entry_direct\<rparr>
             None None 8 4 buf0 world0) = 0
   \<and> fst (grub_esfs_read_file \<lparr>bsize = 512, direntry = entry_direct\<rparr>
             None None 8 4 buf0 world0) \<noteq> - 1"
  by (simp add: grub_esfs_read_file_def entry_direct_fields Let_def ESFS_INDIRECTION_DIRECT_def)

text \<open>
  Claim C6, amended. For every node and every \<open>pos > fileSize\<close>, the call returns -1,
  leaves the buffer as it was and reads nothing from the device. For \<open>pos \<le> fileSize\<close>
  and a length with \<open>len + pos < 2^64\<close>, the length is clamped to \<open>fileSize - pos\<close> before
  anything else is done with it: the call behaves exactly as the call with length
  \<open>min len (fileSize - pos)\<close>.
\<close>

theorem read_file_fileSize_clamp:
  fixes node :: grub_fshelp_node and pos len :: "64 word"
  defines "fs \<equiv> de_fileSize (direntry node)"
  shows "(fs < pos \<longrightarrow>
            fst (grub_esfs_read_file node hook hook_data pos len buf w) = - 1
            \<and> fst (snd (grub_esfs_read_file node hook hook_data pos len buf w)) = buf
            \<and> accesses (snd (snd (grub_esfs_read_file node hook hook_data pos len buf w))) = accesses w)
       \<and> (pos \<le> fs \<and> unat len + unat pos < 2 ^ 64 \<longrightarrow>
            grub_esfs_read_file node hook hook_data pos len buf w
            = grub_esfs_read_file node hook hook_data pos (min len (fs - pos)) buf w)"
proof (intro conjI impI)
  assume "fs < pos"
  then have "fst (grub_esfs_read_file node hook hook_data pos len buf w) = - 1
    \<and> fst (snd (grub_esfs_read_file node hook hook_data pos len buf w)) = buf
    \<and> accesses (snd (snd (grub_esfs_read_file node hook hook_data pos len buf w))) = accesses w"
    by (cases "get_direntry_attribute (direntry node) ESFS_ATTRIBUTE_DATA 32")
      (simp_all add: grub_esfs_read_file_def fs_def Let_def grub_error_def)
  then show "fst (grub_esfs_read_file node hook hook_data pos len buf w) = - 1"
    and "fst (snd (grub_esfs_read_file node hook hook_data pos len buf w)) = buf"
    and "accesses (snd (snd (grub_esfs_read_file node hook hook_data pos len buf w))) = accesses w"
    by simp_all
next
  assume h: "pos \<le> fs \<and> unat len + unat pos < 2 ^ 64"
  then have c: "(if fs < min len (fs - pos) + pos then fs - pos else min len (fs - pos))
       = (if fs < len + pos then fs - pos else len)"
    by (simp add: clamp_idem)
  show "grub_esfs_read_file node hook hook_data pos len buf w
            = grub_esfs_read_file node hook hook_data pos (min len (fs - pos)) buf w"
    unfolding fs_def grub_esfs_read_file_def Let_def c [unfolded fs_def] ..
qed

theorem read_file_fileSize_clamp_witness:
  "de_fileSize entry_direct < 9
   \<and> fst (grub_esfs_read_file \<lparr>bsize = 512, direntry = entry_direct\<rparr>
             None None 9 4 buf0 world0) = - 1
   \<and> 2 \<le> de_fileSize entry_direct \<and> unat (100 :: 64 word) + unat (2 :: 64 word) < 2 ^ 64
   \<and> grub_esfs_read_file \<lparr>bsize = 512, direntry = entry_direct\<rparr> None None 2 100 buf0 world0
       = grub_esfs_read_file \<lparr>bsize = 512, direntry = entry_direct\<rparr> None None 2
           (min 100 (de_fileSize entry_direct - 2)) buf0 world0"
proof -
  have h1: "de_fileSize entry_direct < 9" by (simp add: entry_direct_fields)
  have h2: "2 \<le> de_fileSize entry_direct" by (simp add: entry_direct_fields)
  have h3: "unat (100 :: 64 word) + unat (2 :: 64 word) < 2 ^ 64" by simp
  from read_file_fileSize_clamp [of "\<lparr>bsize = 512, direntry = entry_direct\<rparr>" 9 None None 4 buf0 world0]
    read_file_fileSize_clamp [of "\<lparr>bsize = 512, direntry = entry_direct\<rparr>" 2 None None 100 buf0 world0]
    h1 h2 h3
  show ?thesis by simp
qed

text \<open>
  Claim C1 is violated by the code: the test \<open>len + pos > fileSize\<close> is computed in 64
  bits and wraps. On an entry of fileSize 2, a read of \<open>2^64 - 1\<close> bytes at position 1 is
  not clamped and returns 7 bytes, more than \<open>min len (fileSize - pos) = fileSize - pos = 1\<close>:
  it hands out the logical bytes 1..7, past fileSize.
\<close>

theorem read_file_len_overflow:
  "de_fileSize entry_small = 2
   \<and> de_fileSize entry_small - 1 = 1
   \<and> fst (grub_esfs_read_file \<lparr>bsize = 512, direntry = entry_small\<rparr>
             None None 1 (- 1) buf0 world0) = 7"
  by (simp add: grub_esfs_read_file_def entry_small_fields Let_def ESFS_INDIRECTION_DIRECT_def)

section \<open>Reading a file: the number of bytes returned\<close>

text \<open>For lengths that do not wrap, the call returns -1 or at most
  \<open>min len (fileSize - pos)\<close> bytes, on the DIRECT and on the L1 path.\<close>

lemma l1_body_Inl:
  assumes "l1_body c v buf w = Inl (r, b', w')"
  shows "r = - 1 \<or> r = already_read v"
  using assms
  by (auto simp: l1_body_def Let_def split: if_splits prod.splits)

lemma l1_body_Inr:
  assumes "l1_body c v buf w = Inr (v', b', w')" "already_read v \<le> c_len c"
  shows "already_read v \<le> already_read v' \<and> already_read v' \<le> c_len c"
proof -
  have k: "x \<le> x + t \<and> x + t \<le> l" if "x \<le> l" "t \<le> l - x" for x t l :: "64 word"
  proof -
    have a: "unat (l - x) = unat l - unat x" using that(1) by (simp add: unat_sub)
    have b: "unat t \<le> unat l - unat x" using that(2) a by (simp add: word_le_nat_alt)
    have c: "unat x \<le> unat l" using that(1) by (simp add: word_le_nat_alt)
    have "unat l < 2 ^ LENGTH(64)" by (rule unsigned_less)
    then have "unat x + unat t < 2 ^ LENGTH(64)" using b c by simp
    then have "unat (x + t) = unat x + unat t" by (rule unat_add_lem [THEN iffD1])
    then show ?thesis using b c by (simp add: word_le_nat_alt)
  qed
  show ?thesis
    using assms
    by (auto simp: l1_body_def Let_def k not_less split: if_splits prod.splits)
qed

lemma l1_loop_bound:
  "already_read v \<le> c_len c \<Longrightarrow>
     fst (l1_loop c extnum v buf w) = - 1
     \<or> (already_read v \<le> fst (l1_loop c extnum v buf w) \<and> fst (l1_loop c extnum v buf w) \<le> c_len c)"
proof (induction c extnum v buf w rule: l1_loop.induct)
  case (1 c extnum v buf w)
  note step = l1_loop.simps [of c extnum v buf w]
  show ?case
  proof (cases "already_read v < c_len c \<and> extnum < unat (attr_count (c_de c) (c_d c))")
    case False
    have "l1_loop c extnum v buf w = (already_read v, buf, w)"
      by (simp only: step if_not_P [OF False])
    then show ?thesis using "1.prems" by simp
  next
    case True
    have e: "l1_loop c extnum v buf w =
        (case l1_body c v buf w of Inl r \<Rightarrow> r
         | Inr (v', buf', w') \<Rightarrow> l1_loop c (extnum + 1) v' buf' w')"
      by (simp only: step if_P [OF True])
    show ?thesis
    proof (cases "l1_body c v buf w")
      case (Inl r)
      obtain x b' w' where r: "r = (x, b', w')" by (cases r)
      from l1_body_Inl [OF Inl [unfolded r]] show ?thesis
        using Inl r "1.prems" by (auto simp: e)
    next
      case (Inr t)
      obtain v' b' w' where t: "t = (v', b', w')" by (cases t)
      note b = l1_body_Inr [OF Inr [unfolded t] "1.prems"]
      from "1.IH" [OF True Inr t [symmetric] refl] b
      have "fst (l1_loop c (extnum + 1) v' b' w') = - 1
        \<or> (already_read v' \<le> fst (l1_loop c (extnum + 1) v' b' w')
            \<and> fst (l1_loop c (extnum + 1) v' b' w') \<le> c_len c)"
        by simp
      then show ?thesis using Inr t b by (auto simp: e)
    qed
  qed
qed


lemma fileSize_clamp_value:
  fixes pos len fs :: "64 word"
  assumes "pos \<le> fs" "unat len + unat pos < 2 ^ 64"
  shows "unat (if fs < len + pos then fs - pos else len) = min (unat len) (unat fs - unat pos)"
proof -
  have a: "unat (len + pos) = unat len + unat pos"
    using assms(2) by (simp add: unat_add_lem [THEN iffD1])
  have s: "unat (fs - pos) = unat fs - unat pos" using assms(1) by (simp add: unat_sub)
  show ?thesis using a s by (auto simp: word_less_nat_alt min_def)
qed

lemma read_file_count_bound:
  fixes node :: grub_fshelp_node and pos len :: "64 word" and hook hook_data :: "nat option"
    and buf :: mem and w :: world
  assumes "unat len + unat pos < 2 ^ 64"
  defines "r \<equiv> fst (grub_esfs_read_file node hook hook_data pos len buf w)"
  shows "r = - 1 \<or> unat r \<le> min (unat len) (unat (de_fileSize (direntry node)) - unat pos)"
proof (cases "get_direntry_attribute (direntry node) ESFS_ATTRIBUTE_DATA 32")
  case None
  then show ?thesis by (simp add: r_def grub_esfs_read_file_def)
next
  case (Some d)
  define de where "de = direntry node"
  define len1 where "len1 = (if de_fileSize de < len + pos then de_fileSize de - pos else len)"
  show ?thesis
  proof (cases "attr_size de d < ucast (attr_dataOffset de d) \<or> de_fileSize de < pos")
    case True
    then show ?thesis using Some by (auto simp: r_def grub_esfs_read_file_def de_def Let_def)
  next
    case False
    then have p: "pos \<le> de_fileSize de" by (simp add: not_less)
    have l: "unat len1 = min (unat len) (unat (de_fileSize de) - unat pos)"
      unfolding len1_def using p assms(1) by (rule fileSize_clamp_value)
    have "r = - 1 \<or> r \<le> len1"
    proof (cases "attr_indirection de d = ESFS_INDIRECTION_DIRECT")
      case True
      then show ?thesis using Some False
        by (auto simp: r_def grub_esfs_read_file_def de_def [symmetric] Let_def len1_def [symmetric]
            not_less)
    next
      case nd: False
      show ?thesis
      proof (cases "attr_indirection de d = ESFS_INDIRECTION_L1")
        case False
        then show ?thesis using Some nd \<open>\<not> (attr_size de d < ucast (attr_dataOffset de d) \<or> de_fileSize de < pos)\<close>
          by (simp add: r_def grub_esfs_read_file_def de_def [symmetric] Let_def)
      next
        case True
        define c where "c = \<lparr>c_de = de, c_d = d, c_bsize = bsize node, c_hook = hook,
            c_hook_data = hook_data, c_pos = pos, c_len = len1,
            c_data_size = (ucast (attr_size de d) - ucast (attr_dataOffset de d) :: 32 word)\<rparr>"
        define v where "v = \<lparr>ext_off = (ucast (attr_dataOffset de d) :: 32 word), cur_pos = 0,
            already_read = 0, cur_start = 0\<rparr>"
        have e: "r = fst (l1_loop c 0 v buf w)"
          using Some nd True \<open>\<not> (attr_size de d < ucast (attr_dataOffset de d) \<or> de_fileSize de < pos)\<close>
          by (simp add: r_def grub_esfs_read_file_def de_def [symmetric] Let_def len1_def [symmetric]
              c_def v_def)
        have "already_read v \<le> c_len c" by (simp add: v_def)
        from l1_loop_bound [OF this, of 0 buf w] show ?thesis
          by (auto simp: e c_def)
      qed
    qed
    then show ?thesis using l by (auto simp: word_le_nat_alt de_def)
  qed
qed

section \<open>Reading a file: the read hook\<close>

text \<open>When no hook is installed before the call, the slot is clear after it unless a
  device read has failed; and every device read of the call is made with the caller's
  hook installed (the DIRECT branch makes none).\<close>

lemma reads_hooked_refl: "reads_hooked hook w w"
  by (simp add: reads_hooked_def)

lemma reads_hooked_trans:
  "reads_hooked hook w w' \<Longrightarrow> reads_hooked hook w' w'' \<Longrightarrow> reads_hooked hook w w''"
  by (auto simp: reads_hooked_def)

lemma l1_body_hook_Inl:
  assumes "l1_body c v buf w = Inl res" "read_hook w = None"
  shows "hook_left (c_hook c) res \<and> reads_hooked (c_hook c) w (snd (snd res))"
  using assms
  by (auto simp: l1_body_def Let_def grub_disk_read_def hook_left_def reads_hooked_def
      split: if_splits prod.splits)

lemma l1_body_hook_Inr:
  assumes "l1_body c v buf w = Inr (v', b', w')" "read_hook w = None"
  shows "read_hook w' = None \<and> reads_hooked (c_hook c) w w'"
  using assms
  by (auto simp: l1_body_def Let_def grub_disk_read_def reads_hooked_def
      split: if_splits prod.splits)

lemma l1_loop_hook:
  "read_hook w = None \<Longrightarrow>
     hook_left (c_hook c) (l1_loop c extnum v buf w)
     \<and> reads_hooked (c_hook c) w (snd (snd (l1_loop c extnum v buf w)))"
proof (induction c extnum v buf w rule: l1_loop.induct)
  case (1 c extnum v buf w)
  note step = l1_loop.simps [of c extnum v buf w]
  show ?case
  proof (cases "already_read v < c_len c \<and> extnum < unat (attr_count (c_de c) (c_d c))")
    case False
    have "l1_loop c extnum v buf w = (already_read v, buf, w)"
      by (simp only: step if_not_P [OF False])
    then show ?thesis using "1.prems" by (simp add: hook_left_def reads_hooked_refl)
  next
    case True
    have e: "l1_loop c extnum v buf w =
        (case l1_body c v buf w of Inl r \<Rightarrow> r
         | Inr (v', buf', w') \<Rightarrow> l1_loop c (extnum + 1) v' buf' w')"
      by (simp only: step if_P [OF True])
    show ?thesis
    proof (cases "l1_body c v buf w")
      case (Inl r)
      from l1_body_hook_Inl [OF Inl "1.prems"] show ?thesis by (simp add: e Inl)
    next
      case (Inr t)
      obtain v' b' w' where t: "t = (v', b', w')" by (cases t)
      note b = l1_body_hook_Inr [OF Inr [unfolded t] "1.prems"]
      from "1.IH" [OF True Inr t [symmetric] refl] b
      have "hook_left (c_hook c) (l1_loop c (extnum + 1) v' b' w')
         \<and> reads_hooked (c_hook c) w' (snd (snd (l1_loop c (extnum + 1) v' b' w')))"
        by simp
      then show ?thesis using b by (auto simp: e Inr t intro: reads_hooked_trans)
    qed
  qed
qed

lemma read_file_hook:
  assumes "read_hook w = None"
  shows "hook_left hook (grub_esfs_read_file node hook hook_data pos len buf w)
    \<and> reads_hooked hook w (snd (snd (grub_esfs_read_file node hook hook_data pos len buf w)))"
proof -
  have a: "hook_left hook (r, b, w)" "reads_hooked hook w w"
    "hook_left hook (r, b, grub_error e m w)" "reads_hooked hook w (grub_error e m w)" for r b e m
    using assms by (simp_all add: hook_left_def reads_hooked_def grub_error_def)
  have l: "hook_left hook (l1_loop c 0 v buf w) \<and> reads_hooked hook w (snd (snd (l1_loop c 0 v buf w)))"
    if "c_hook c = hook" for c v
    using l1_loop_hook [OF assms, of c 0 v buf] that by simp
  show ?thesis
    unfolding grub_esfs_read_file_def Let_def
    by (auto simp: a l split: option.splits)
qed


text \<open>
  Claim C8 is violated by the code: when \<open>grub_disk_read\<close> fails, \<open>grub_esfs_read_file\<close>
  returns -1 before the statement that clears the hook. On an L1 entry read from a device
  whose reads fail, with hook 1 passed in and no hook installed before the call, the hook
  is still installed on the disk when the call returns.
\<close>

theorem read_file_leaves_hook_on_error:
  "read_hook world_fail = None
   \<and> fst (grub_esfs_read_file \<lparr>bsize = 512, direntry = entry_l1\<rparr>
             (Some 1) (Some 2) 0 1024 buf0 world_fail) = - 1
   \<and> read_hook (snd (snd (grub_esfs_read_file \<lparr>bsize = 512, direntry = entry_l1\<rparr>
             (Some 1) (Some 2) 0 1024 buf0 world_fail))) = Some 1"
  by (simp add: grub_esfs_read_file_def entry_l1_fields Let_def ESFS_INDIRECTION_DIRECT_def
      ESFS_INDIRECTION_L1_def l1_loop.simps l1_body_def entry_l1_extent grub_disk_read_def
      startBytes_of_def countBytes_of_def world_fail_def world0_def)

section \<open>The extent decoder\<close>

lemma length_ext_bytes [simp]: "length (ext_bytes de d eo n) = n"
  by (induction n arbitrary: eo) simp_all

lemma shift_or_byte:
  fixes acc :: "64 word" and b :: byte
  shows "push_bit 8 acc OR ucast b = acc * 256 + of_nat (unat b)"
proof -
  have "push_bit 8 acc AND ucast b = 0"
    by (rule bit_eqI) (auto simp: bit_simps dest: bit_imp_le_length)
  then have "push_bit 8 acc OR ucast b = push_bit 8 acc + ucast b"
    by (simp add: disjunctive_add_eq_or)
  then show ?thesis by (simp add: push_bit_eq_mult)
qed

lemma be_accum_value:
  "be_accum de d n eo acc
     = (acc * 256 ^ n + of_nat (be_value (ext_bytes de d eo n)), eo + of_nat n)"
proof (induction n arbitrary: eo acc)
  case 0
  show ?case by simp
next
  case (Suc n)
  show ?case by (simp add: Suc.IH shift_or_byte algebra_simps)
qed

lemma be_value_less: "be_value bs < 256 ^ length bs"
proof (induction bs)
  case Nil
  show ?case by simp
next
  case (Cons b bs)
  define c :: nat where "c = 256 ^ length bs"
  have "unat b < 256" using unsigned_less [of b, where 'a = nat] by simp
  then have "unat b + 1 \<le> 256" by simp
  then have a: "(unat b + 1) * c \<le> 256 * c" by (rule mult_le_mono1)
  have e: "(unat b + 1) * c = unat b * c + c" by simp
  have i: "be_value bs < c" using Cons.IH by (simp add: c_def)
  from a e i have "unat b * c + be_value bs < 256 * c" by linarith
  moreover have "be_value (b # bs) = unat b * c + be_value bs" by (simp add: c_def)
  moreover have "(256 :: nat) ^ length (b # bs) = 256 * c" by (simp add: c_def)
  ultimately show ?case by linarith
qed

lemma bit7_iff: "bit (b :: byte) 7 \<longleftrightarrow> 128 \<le> unat b"
proof -
  have l: "unat b < 256" using unsigned_less [of b, where 'a = nat] by simp
  have "bit b 7 \<longleftrightarrow> bit (unat b) 7" by (simp add: bit_unsigned_iff)
  also have "\<dots> \<longleftrightarrow> odd (unat b div 128)" by (simp add: bit_iff_odd)
  also have "\<dots> \<longleftrightarrow> 128 \<le> unat b"
  proof (cases "128 \<le> unat b")
    case True
    then have "unat b div 128 = 1" using l by simp
    then show ?thesis using True by simp
  next
    case False
    then have "unat b div 128 = 0" by simp
    then show ?thesis using False by simp
  qed
  finally show ?thesis .
qed

lemma be_value_top:
  "bit b 7 \<Longrightarrow> 128 * 256 ^ length bs \<le> be_value (b # bs)"
  "\<not> bit b 7 \<Longrightarrow> be_value (b # bs) < 128 * 256 ^ length bs"
proof -
  define c :: nat where "c = 256 ^ length bs"
  show "bit b 7 \<Longrightarrow> 128 * 256 ^ length bs \<le> be_value (b # bs)"
  proof -
    assume "bit b 7"
    then have "128 \<le> unat b" by (simp add: bit7_iff)
    then have m: "128 * c \<le> unat b * c" by (rule mult_le_mono1)
    have "be_value (b # bs) = unat b * c + be_value bs" by (simp add: c_def)
    with m have "128 * c \<le> be_value (b # bs)" by linarith
    then show ?thesis by (simp only: c_def)
  qed
  show "\<not> bit b 7 \<Longrightarrow> be_value (b # bs) < 128 * 256 ^ length bs"
  proof -
    assume "\<not> bit b 7"
    then have "unat b + 1 \<le> 128" by (simp add: bit7_iff)
    then have a: "(unat b + 1) * c \<le> 128 * c" by (rule mult_le_mono1)
    have e: "(unat b + 1) * c = unat b * c + c" by simp
    have i: "be_value bs < c" using be_value_less [of bs] by (simp add: c_def)
    from a e i have "unat b * c + be_value bs < 128 * c" by linarith
    moreover have "be_value (b # bs) = unat b * c + be_value bs" by (simp add: c_def)
    ultimately have "be_value (b # bs) < 128 * c" by linarith
    then show ?thesis by (simp only: c_def)
  qed
qed


lemma sint_in_range:
  fixes k :: int
  assumes "- (2 ^ 63) \<le> k" "k < 2 ^ 63"
  shows "sint (word_of_int k :: 64 word) = k"
  using assms by (simp add: signed_of_int signed_take_bit_int_eq_self)

lemma be_signed_range:
  assumes "length bs \<le> 8"
  shows "- (2 ^ 63) \<le> be_signed bs \<and> be_signed bs < 2 ^ 63"
proof (cases bs)
  case Nil
  then show ?thesis by (simp add: be_signed_def)
next
  case (Cons b rest)
  define c :: nat where "c = 256 ^ length rest"
  have "length rest \<le> 7" using assms Cons by simp
  then have "(256 :: nat) ^ length rest \<le> 256 ^ 7" by (rule power_increasing) simp
  then have c: "c \<le> 2 ^ 56" by (simp add: c_def)
  have p: "(2 :: int) ^ (8 * length bs) = 256 * int c"
    by (simp add: Cons c_def power_add power_mult)
  show ?thesis
  proof (cases "bit b 7")
    case True
    have lo: "128 * c \<le> be_value bs" using be_value_top(1) [OF True, of rest] by (simp add: Cons c_def)
    have hi: "be_value bs < 256 * c" using be_value_less [of bs] by (simp add: Cons c_def)
    have "be_signed bs = int (be_value bs) - 2 ^ (8 * length bs)"
      using True by (simp add: be_signed_def Cons)
    then have "be_signed bs = int (be_value bs) - 256 * int c"
      by (simp only: p)
    then show ?thesis using lo hi c by simp
  next
    case False
    have hi: "be_value bs < 128 * c" using be_value_top(2) [OF False, of rest] by (simp add: Cons c_def)
    have "be_signed bs = int (be_value bs)" using False by (simp add: be_signed_def Cons)
    then show ?thesis using hi c by simp
  qed
qed

lemma be_accum_signed:
  assumes "0 < n"
  shows "fst (be_accum de d n eo (if de (d + unat eo) AND 0x80 \<noteq> 0 then - 1 else 0))
           = word_of_int (be_signed (ext_bytes de d eo n))"
proof -
  obtain m where n: "n = Suc m" using assms by (cases n) simp_all
  have b: "(de (d + unat eo) AND 0x80 \<noteq> 0) = bit (de (d + unat eo)) 7"
    by (simp add: bit_iff_and_push_bit_not_eq_0)
  show ?thesis
  proof (cases "bit (de (d + unat eo)) 7")
    case True
    have "(- 1 :: 64 word) * 256 ^ n = word_of_int (- (2 ^ (8 * n)))"
      by (simp add: power_mult)
    then show ?thesis using True
      by (simp only: be_accum_value b if_True fst_conv be_signed_def n)
        (simp add: power_mult)
  next
    case False
    then show ?thesis
      by (simp only: be_accum_value b if_False fst_conv be_signed_def n)
        (simp add: power_mult)
  qed
qed


lemma low3_bytes: "unat (((x :: byte) AND 7) + 1) = unat (x AND 7) + 1"
proof -
  have "unat (x AND 7) \<le> unat (7 :: byte)"
    by (rule word_and_le1 [THEN word_le_nat_alt [THEN iffD1]])
  then have "unat (x AND 7) + unat (1 :: byte) < 2 ^ LENGTH(8)" by simp
  then have "unat ((x AND 7) + 1) = unat (x AND 7) + unat (1 :: byte)"
    by (rule unat_add_lem [THEN iffD1])
  then show ?thesis by simp
qed

lemma decode_extent_value:
  "decode_extent de d h eo =
     (word_of_int (be_signed (ext_bytes de d eo (unat (h AND 7) + 1))),
      of_nat (be_value (ext_bytes de d (eo + of_nat (unat (h AND 7) + 1))
                (unat (drop_bit 3 h AND 7) + 1))),
      eo + of_nat (unat (h AND 7) + 1) + of_nat (unat (drop_bit 3 h AND 7) + 1))"
proof -
  have sb: "unat (startBytes_of h) = unat (h AND 7) + 1"
    by (simp add: startBytes_of_def low3_bytes)
  have cb: "unat (countBytes_of h) = unat (drop_bit 3 h AND 7) + 1"
    by (simp add: countBytes_of_def low3_bytes)
  have s: "be_accum de d (unat (h AND 7) + 1) eo (if de (d + unat eo) AND 0x80 \<noteq> 0 then - 1 else 0)
      = (word_of_int (be_signed (ext_bytes de d eo (unat (h AND 7) + 1))),
         eo + of_nat (unat (h AND 7) + 1))"
    using be_accum_signed [of "unat (h AND 7) + 1" de d eo]
    by (simp add: prod_eq_iff be_accum_value)
  show ?thesis
    unfolding decode_extent_def Let_def sb cb s
    by (simp add: be_accum_value)
qed

lemma l1_body_cursor:
  assumes "l1_body c v buf w = Inr (v', b', w')"
  defines "x \<equiv> decode_extent (c_de c) (c_d c) (c_de c (c_d c + unat (ext_off v))) (ext_off v + 1)"
  shows "cur_start v' = cur_start v + fst x
    \<and> cur_pos v' = cur_pos v + fst (snd x) * c_bsize c
    \<and> ext_off v' = snd (snd x)"
  using assms(1) unfolding x_def
  by (auto simp: l1_body_def Let_def grub_disk_read_def split: if_splits prod.splits)

text \<open>
  Claim C5. For every extent record with header byte \<open>h\<close>: \<open>startBytes = (h & 7) + 1\<close>
  and \<open>countBytes = ((h >> 3) & 7) + 1\<close>; the decoded start, read as a signed 64-bit
  number, is the two's-complement value of the \<open>startBytes\<close> big-endian bytes after the
  header; the decoded count is the unsigned value of the \<open>countBytes\<close> big-endian bytes
  that follow; and adding the start to a block cursor wraps modulo \<open>2^64\<close>. A pass of the
  extent loop that goes on to the next record has decoded the record at its offset in this
  way: its cursor \<open>cur_start\<close> has advanced by the delta modulo \<open>2^64\<close>, its logical
  position by the count times the block size, and its offset to the byte after the record.
\<close>

theorem extent_decoding:
  fixes h :: byte and de :: mem and d :: nat and eo :: "32 word" and cur :: "64 word"
  defines "sb \<equiv> unat (h AND 7) + 1"
  defines "cb \<equiv> unat (drop_bit 3 h AND 7) + 1"
  defines "delta \<equiv> be_signed (ext_bytes de d eo sb)"
  defines "blocks \<equiv> be_value (ext_bytes de d (eo + of_nat sb) cb)"
  shows "unat (startBytes_of h) = sb \<and> unat (countBytes_of h) = cb
    \<and> (case decode_extent de d h eo of (start, count, eo2) \<Rightarrow>
          sint start = delta \<and> unat count = blocks \<and> eo2 = eo + of_nat sb + of_nat cb
          \<and> uint (cur + start) = (uint cur + delta) mod 2 ^ 64)
    \<and> (\<forall>c v buf w v' buf' w'.
          c_de c = de \<and> c_d c = d \<and> c_de c (c_d c + unat (ext_off v)) = h
          \<and> ext_off v + 1 = eo \<and> l1_body c v buf w = Inr (v', buf', w') \<longrightarrow>
          uint (cur_start v') = (uint (cur_start v) + delta) mod 2 ^ 64
          \<and> cur_pos v' = cur_pos v + of_nat blocks * c_bsize c
          \<and> ext_off v' = eo + of_nat sb + of_nat cb)"
proof -
  have sb: "unat (startBytes_of h) = sb"
    by (simp add: startBytes_of_def low3_bytes sb_def)
  have cb: "unat (countBytes_of h) = cb"
    by (simp add: countBytes_of_def low3_bytes cb_def)
  have "unat (h AND 7) \<le> unat (7 :: byte)"
    by (rule word_and_le1 [THEN word_le_nat_alt [THEN iffD1]])
  then have sb8: "sb \<le> 8" by (simp add: sb_def)
  have "unat (drop_bit 3 h AND 7) \<le> unat (7 :: byte)"
    by (rule word_and_le1 [THEN word_le_nat_alt [THEN iffD1]])
  then have cb8: "cb \<le> 8" by (simp add: cb_def)
  have r: "- (2 ^ 63) \<le> delta \<and> delta < 2 ^ 63"
    unfolding delta_def using sb8 by (intro be_signed_range) simp
  then have s: "sint (word_of_int delta :: 64 word) = delta" by (simp add: sint_in_range)
  have "blocks < 256 ^ cb" unfolding blocks_def using be_value_less [of "ext_bytes de d (eo + of_nat sb) cb"] by simp
  also have "(256 :: nat) ^ cb \<le> 256 ^ 8" using cb8 by (intro power_increasing) simp_all
  finally have "blocks < 2 ^ 64" by simp
  then have c: "unat (of_nat blocks :: 64 word) = blocks" by (simp add: unat_of_nat)
  have u: "uint (cur + word_of_int delta) = (uint cur + delta) mod 2 ^ 64" for cur :: "64 word"
    by (simp add: uint_word_ariths uint_word_of_int mod_add_right_eq)
  have d: "decode_extent de d h eo = (word_of_int delta, of_nat blocks, eo + of_nat sb + of_nat cb)"
    unfolding delta_def blocks_def sb_def cb_def by (rule decode_extent_value)
  have l: "uint (cur_start v') = (uint (cur_start v) + delta) mod 2 ^ 64
      \<and> cur_pos v' = cur_pos v + of_nat blocks * c_bsize c
      \<and> ext_off v' = eo + of_nat sb + of_nat cb"
    if "c_de c = de" "c_d c = d" "c_de c (c_d c + unat (ext_off v)) = h" "ext_off v + 1 = eo"
      "l1_body c v buf w = Inr (v', buf', w')" for c v buf w v' buf' w'
  proof -
    have x: "decode_extent (c_de c) (c_d c) (c_de c (c_d c + unat (ext_off v))) (ext_off v + 1)
        = (word_of_int delta, of_nat blocks, eo + of_nat sb + of_nat cb)"
      unfolding that(3) unfolding that(1,2,4) by (rule d)
    show ?thesis
      using l1_body_cursor [OF that(5)] u [of "cur_start v"] unfolding x by simp
  qed
  have m: "unat (startBytes_of h) = sb \<and> unat (countBytes_of h) = cb
    \<and> (case decode_extent de d h eo of (start, count, eo2) \<Rightarrow>
          sint start = delta \<and> unat count = blocks \<and> eo2 = eo + of_nat sb + of_nat cb
          \<and> uint (cur + start) = (uint cur + delta) mod 2 ^ 64)"
    using sb cb s c u by (simp only: d prod.case simp_thms)
  have L: "\<forall>c v buf w v' buf' w'.
          c_de c = de \<and> c_d c = d \<and> c_de c (c_d c + unat (ext_off v)) = h
          \<and> ext_off v + 1 = eo \<and> l1_body c v buf w = Inr (v', buf', w') \<longrightarrow>
          uint (cur_start v') = (uint (cur_start v) + delta) mod 2 ^ 64
          \<and> cur_pos v' = cur_pos v + of_nat blocks * c_bsize c
          \<and> ext_off v' = eo + of_nat sb + of_nat cb"
    by (intro allI impI, elim conjE, rule l)
  show ?thesis
    by (intro conjI m [THEN conjunct1] m [THEN conjunct2, THEN conjunct1]
        m [THEN conjunct2, THEN conjunct2] L)
qed


theorem extent_decoding_witness:
  "sint (fst (decode_extent ext_neg 0 (ext_neg 0) 1)) = - 2
   \<and> unat (fst (snd (decode_extent ext_neg 0 (ext_neg 0) 1))) = 3
   \<and> snd (snd (decode_extent ext_neg 0 (ext_neg 0) 1)) = 4
   \<and> uint (10 + fst (decode_extent ext_neg 0 (ext_neg 0) 1)) = 8
   \<and> (case l1_body
             \<lparr>c_de = ext_neg, c_d = 0, c_bsize = 512, c_hook = None, c_hook_data = None,
              c_pos = 0, c_len = 512, c_data_size = 40\<rparr>
             \<lparr>ext_off = 0, cur_pos = 0, already_read = 0, cur_start = 10\<rparr> buf0 world0 of
         Inl r \<Rightarrow> False
       | Inr (v', buf', w') \<Rightarrow>
           uint (cur_start v') = 8 \<and> cur_pos v' = 1536 \<and> ext_off v' = 4)"
proof -
  define c0 where "c0 = \<lparr>c_de = ext_neg, c_d = 0, c_bsize = 512, c_hook = None,
     c_hook_data = None, c_pos = 0, c_len = 512, c_data_size = 40\<rparr>"
  define v0 where "v0 = \<lparr>ext_off = 0, cur_pos = 0, already_read = 0, cur_start = 10\<rparr>"
  have h: "ext_neg 0 = 1" by (simp add: ext_neg_def mem_of_def)
  have sb: "unat ((1 :: byte) AND 7) + 1 = Suc (Suc 0)" by simp
  have cb: "unat (drop_bit 3 (1 :: byte) AND 7) + 1 = Suc 0" by simp
  have e1: "ext_bytes ext_neg 0 1 (Suc (Suc 0)) = [0xff, 0xfe]"
    by (simp add: ext_neg_def mem_of_def)
  have e2: "ext_bytes ext_neg 0 (1 + of_nat (Suc (Suc 0))) (Suc 0) = [3]"
    by (simp add: ext_neg_def mem_of_def)
  have a: "be_signed [0xff, 0xfe :: byte] = - 2" by (simp add: be_signed_def bit7_iff)
  have b: "be_value [3 :: byte] = 3" by simp
  note t = extent_decoding [of 1 ext_neg 0 1 10, unfolded sb cb e1 e2 a b]
  have "\<exists>v' buf' w'. l1_body c0 v0 buf0 world0 = Inr (v', buf', w')"
    by (cases "decode_extent ext_neg 0 1 1")
      (simp add: l1_body_def c0_def v0_def h Let_def startBytes_of_def countBytes_of_def
        grub_disk_read_def world0_def)
  then obtain v' buf' w' where r: "l1_body c0 v0 buf0 world0 = Inr (v', buf', w')" by blast
  have p: "c_de c0 = ext_neg \<and> c_d c0 = 0 \<and> c_de c0 (c_d c0 + unat (ext_off v0)) = 1
      \<and> ext_off v0 + 1 = 1 \<and> l1_body c0 v0 buf0 world0 = Inr (v', buf', w')"
    using r by (simp add: c0_def v0_def h)
  from t have "\<forall>c v buf w v' buf' w'.
          c_de c = ext_neg \<and> c_d c = 0 \<and> c_de c (c_d c + unat (ext_off v)) = 1
          \<and> ext_off v + 1 = 1 \<and> l1_body c v buf w = Inr (v', buf', w') \<longrightarrow>
          uint (cur_start v') = (uint (cur_start v) + - 2) mod 2 ^ 64
          \<and> cur_pos v' = cur_pos v + of_nat 3 * c_bsize c
          \<and> ext_off v' = 1 + of_nat (Suc (Suc 0)) + of_nat (Suc 0)"
    by blast
  from this [rule_format, OF p]
  have q: "uint (cur_start v') = 8 \<and> cur_pos v' = 1536 \<and> ext_off v' = 4"
    by (simp add: c0_def v0_def)
  from t have d: "sint (fst (decode_extent ext_neg 0 1 1)) = - 2
      \<and> unat (fst (snd (decode_extent ext_neg 0 1 1))) = 3
      \<and> snd (snd (decode_extent ext_neg 0 1 1)) = 4
      \<and> uint (10 + fst (decode_extent ext_neg 0 1 1)) = 8"
    by (simp split: prod.splits)
  show ?thesis
    using d q by (simp add: h r [unfolded c0_def v0_def])
qed

section \<open>Mounting\<close>

lemma blockSize_mask_eq: "blockSize_mask = NOT 0xffffe00"
  by (simp add: blockSize_mask_def)

lemma signature_differs:
  "memcmp_differs sb 0 ESFS_SIGNATURE_STRING = (map sb [0..<16] \<noteq> map of_char ''!EssenceFS2-----'')"
proof -
  have len: "length ESFS_SIGNATURE_STRING = 16" by (simp add: ESFS_SIGNATURE_STRING_def)
  show ?thesis
    unfolding memcmp_differs_def len unfolding ESFS_SIGNATURE_STRING_def
    by (simp only: add_0)
qed

lemma checks_rejected:
  "(memcmp_differs sb 0 ESFS_SIGNATURE_STRING
      \<or> sb_requiredReadVersion sb > ESFS_DRIVER_VERSION
      \<or> sb_blockSize sb = 0
      \<or> sb_blockSize sb AND blockSize_mask \<noteq> 0
      \<or> sb_blockCount sb = 0) = sb_rejected sb"
  unfolding signature_differs sb_rejected_def blockSize_mask_eq ESFS_DRIVER_VERSION_def ..

lemma mount_unfold:
  fixes w :: world and m :: mem
  assumes malloc: "heap_fresh w (heap_count w) = Some m"
    and clean: "grub_errno w = GRUB_ERR_NONE"
    and rd: "dev_status w 16 0 8192 = GRUB_ERR_NONE"
  defines "sb \<equiv> (\<lambda>i. if i < 8192 then dev_bytes w (8192 + i) else m i)"
  defines "w1 \<equiv> w\<lparr>heap_count := heap_count w + 1,
     accesses := accesses w @ [\<lparr>acc_sector = 16, acc_offset = 0, acc_size = 8192,
       acc_hook = read_hook w, acc_status = GRUB_ERR_NONE\<rparr>]\<rparr>"
  shows "grub_esfs_mount w =
      (if sb_rejected sb
       then mount_fail (grub_error GRUB_ERR_BAD_FS ''not an esfs filesystem'' w1)
       else (case grub_disk_read (sb_root_block sb * drop_bit 9 (sb_blockSize sb))
                    (ucast (sb_root_offset_into_block sb)) 1024 (\<lambda>i. m (8224 + i)) w1 of
               (e2, de, w2) \<Rightarrow>
                 if e2 \<noteq> GRUB_ERR_NONE then mount_fail w2
                 else if esfs_check_direntry de = 0
                 then mount_fail (grub_error GRUB_ERR_BAD_FS ''incorrect directory signature'' w2)
                 else (Some \<lparr>sblock = sb, data_bsize = sb_blockSize sb,
                             diropen = \<lparr>bsize = sb_blockSize sb, direntry = de\<rparr>\<rparr>, w2)))"
proof -
  have a: "grub_malloc w = (Some m, w\<lparr>heap_count := heap_count w + 1\<rparr>)"
    by (simp add: grub_malloc_def malloc)
  have b: "grub_disk_read 16 0 8192 m (w\<lparr>heap_count := heap_count w + 1\<rparr>) = (GRUB_ERR_NONE, sb, w1)"
    by (simp add: grub_disk_read_def w1_def rd sb_def Let_def cong: if_cong)
  have e: "grub_errno w1 = GRUB_ERR_NONE" by (simp add: w1_def clean)
  show ?thesis
    by (simp only: grub_esfs_mount_def a b prod.case option.case e checks_rejected simp_thms
        if_False)
qed

lemma upt_16: "[0..<16] = [0, 1, 2, 3, 4, 5, 6, 7, 8, 9, 10, 11, 12, 13, 14, 15 :: nat]"
  by (simp add: upt_rec)

lemma world_oor_superblock:
  fixes sb :: mem
  defines "sb \<equiv> (\<lambda>i. if i < 8192 then dev_bytes world_oor (8192 + i) else 0)"
  shows "map sb [0..<16] = map of_char ''!EssenceFS2-----''"
    "sb_requiredReadVersion sb = 10" "sb_blockSize sb = 512" "sb_blockCount sb = 1"
    "sb_root_block sb = 100" "sb_root_offset_into_block sb = 0"
  by (simp_all add: sb_def upt_16 world_oor_def world0_def mem_of_def superblock_image_def
      sb_requiredReadVersion_def sb_blockSize_def sb_blockCount_def sb_root_block_def
      sb_root_offset_into_block_def le16_def le32_def le64_def)

lemma world_oor_accepted:
  "\<not> sb_rejected (\<lambda>i. if i < 8192 then dev_bytes world_oor (8192 + i) else 0)"
  by (simp add: sb_rejected_def world_oor_superblock)

lemma world0_rejected:
  "sb_rejected (\<lambda>i. if i < 8192 then dev_bytes world0 (8192 + i) else 0)"
  by (simp add: sb_rejected_def world0_def sb_blockSize_def le64_def)

lemma world_oor_facts:
  "heap_fresh world_oor (heap_count world_oor) = Some (\<lambda>i. 0)"
  "grub_errno world_oor = GRUB_ERR_NONE"
  "dev_status world_oor 16 0 8192 = GRUB_ERR_NONE"
  "accesses world_oor = []"
  by (simp_all add: world_oor_def world0_def)

text \<open>
  Claim C2, as stated, fails: the superblock of this device passes every check, yet the
  mount fails with \<open>GRUB_ERR_BAD_FS\<close>, "not an esfs filesystem", because the read of the
  root entry fails with \<open>GRUB_ERR_OUT_OF_RANGE\<close>, which the label \<open>fail\<close> rewrites.
\<close>

theorem mount_out_of_range_counterexample:
  "\<not> sb_rejected (\<lambda>i. if i < 8192 then dev_bytes world_oor (8192 + i) else 0)
   \<and> fst (grub_esfs_mount world_oor) = None
   \<and> grub_errno (snd (grub_esfs_mount world_oor)) = GRUB_ERR_BAD_FS
   \<and> grub_errmsg (snd (grub_esfs_mount world_oor)) = ''not an esfs filesystem''"
proof -
  have s: "dev_status world_oor 100 0 1024 = GRUB_ERR_OUT_OF_RANGE"
    by (simp add: world_oor_def world0_def)
  have "grub_esfs_mount world_oor = (None,
      grub_error GRUB_ERR_BAD_FS ''not an esfs filesystem''
        (snd (snd (grub_disk_read 100 0 1024 (\<lambda>i. 0)
           (world_oor\<lparr>heap_count := heap_count world_oor + 1,
              accesses := accesses world_oor @ [\<lparr>acc_sector = 16, acc_offset = 0, acc_size = 8192,
                 acc_hook = read_hook world_oor, acc_status = GRUB_ERR_NONE\<rparr>]\<rparr>)))))"
    by (simp add: mount_unfold [OF world_oor_facts(1-3)] world_oor_accepted world_oor_superblock
        grub_disk_read_def s Let_def mount_fail_def)
  then show ?thesis using world_oor_accepted by (simp add: grub_error_def)
qed

text \<open>
  Claim C2, amended. For every state in which the allocation and the read of the 8192-byte
  superblock at sector 16 succeed (\<open>grub_errno\<close> being clear): the mount fails with
  \<open>GRUB_ERR_BAD_FS\<close>, "not an esfs filesystem", having read nothing but the superblock,
  exactly when the first 16 bytes differ from "!EssenceFS2-----", or requiredReadVersion
  exceeds 10, or blockSize is 0, or \<open>blockSize AND NOT 0x0FFFFE00\<close> is not 0, or
  blockCount is 0; when none of these holds, the mount goes on to read the 1024-byte root
  entry at sector \<open>root.block * (blockSize >> 9)\<close>, offset \<open>root.offset_into_block\<close>.
\<close>

theorem mount_superblock_validation:
  fixes w :: world and m :: mem
  assumes malloc: "heap_fresh w (heap_count w) = Some m"
    and clean: "grub_errno w = GRUB_ERR_NONE"
    and rd: "dev_status w 16 0 8192 = GRUB_ERR_NONE"
  defines "sb \<equiv> (\<lambda>i. if i < 8192 then dev_bytes w (8192 + i) else m i)"
  defines "sb_call \<equiv> \<lparr>acc_sector = 16, acc_offset = 0, acc_size = 8192,
     acc_hook = read_hook w, acc_status = GRUB_ERR_NONE\<rparr>"
  defines "root_sector \<equiv> sb_root_block sb * drop_bit 9 (sb_blockSize sb)"
  defines "root_offset \<equiv> (ucast (sb_root_offset_into_block sb) :: 64 word)"
  defines "root_call \<equiv> \<lparr>acc_sector = root_sector, acc_offset = root_offset, acc_size = 1024,
     acc_hook = read_hook w, acc_status = dev_status w root_sector root_offset 1024\<rparr>"
  shows "(sb_rejected sb \<longleftrightarrow>
            fst (grub_esfs_mount w) = None
            \<and> grub_errno (snd (grub_esfs_mount w)) = GRUB_ERR_BAD_FS
            \<and> grub_errmsg (snd (grub_esfs_mount w)) = ''not an esfs filesystem''
            \<and> accesses (snd (grub_esfs_mount w)) = accesses w @ [sb_call])
       \<and> (\<not> sb_rejected sb \<longrightarrow>
            accesses (snd (grub_esfs_mount w)) = accesses w @ [sb_call, root_call])"
proof -
  define w1 where "w1 = w\<lparr>heap_count := heap_count w + 1, accesses := accesses w @ [sb_call]\<rparr>"
  note mnt = mount_unfold [OF malloc clean rd, folded sb_def, folded sb_call_def root_sector_def root_offset_def,
      folded w1_def]
  show ?thesis
  proof (cases "sb_rejected sb")
    case True
    then show ?thesis
      by (simp add: mnt mount_fail_def grub_error_def w1_def)
  next
    case False
    obtain e2 de w2 where c: "grub_disk_read root_sector root_offset 1024 (\<lambda>i. m (8224 + i)) w1 = (e2, de, w2)"
      by (cases "grub_disk_read root_sector root_offset 1024 (\<lambda>i. m (8224 + i)) w1") auto
    have acc: "accesses w2 = accesses w @ [sb_call, root_call]"
      using c by (auto simp: grub_disk_read_def Let_def w1_def root_call_def split: if_splits)
    have "accesses (snd (grub_esfs_mount w)) = accesses w2"
      using False by (simp add: mnt c mount_fail_def grub_error_def)
    then show ?thesis using False acc by simp
  qed
qed

theorem mount_superblock_validation_witness:
  "sb_rejected (\<lambda>i. if i < 8192 then dev_bytes world0 (8192 + i) else 0)
   \<and> fst (grub_esfs_mount world0) = None
   \<and> grub_errno (snd (grub_esfs_mount world0)) = GRUB_ERR_BAD_FS
   \<and> accesses (snd (grub_esfs_mount world0))
       = [\<lparr>acc_sector = 16, acc_offset = 0, acc_size = 8192, acc_hook = None,
           acc_status = GRUB_ERR_NONE\<rparr>]
   \<and> \<not> sb_rejected (\<lambda>i. if i < 8192 then dev_bytes world_oor (8192 + i) else 0)
   \<and> length (accesses (snd (grub_esfs_mount world_oor))) = 2"
proof -
  have m0: "heap_fresh world0 (heap_count world0) = Some (\<lambda>i. 0)"
    by (simp add: world0_def)
  have c0: "grub_errno world0 = GRUB_ERR_NONE" by (simp add: world0_def)
  have r0: "dev_status world0 16 0 8192 = GRUB_ERR_NONE" by (simp add: world0_def)
  have a0: "accesses world0 = []" "read_hook world0 = None" by (simp_all add: world0_def)
  from mount_superblock_validation [OF m0 c0 r0]
    mount_superblock_validation [OF world_oor_facts(1-3)]
    world0_rejected world_oor_accepted a0 world_oor_facts(4)
  show ?thesis by simp
qed


section \<open>Iterating over a directory\<close>













end
